theory Spec2Isabelle
  imports Complex_Main "HOL-Library.Word"
begin

section \<open>JavaScript values used by the client\<close>

text \<open>
  A JavaScript string is a sequence of UTF-16 code units. ASCII literals of the source
  are written through \<open>ascii\<close>; the Urdu texts are given by their code units.
\<close>

type_synonym js_string = "16 word list"

definition ascii :: "string \<Rightarrow> js_string" where
  "ascii s = map of_char s"

text \<open>
  \<open>String.prototype.trim\<close> strips white space and line terminators (ECMAScript
  WhiteSpace and LineTerminator productions) from both ends.
\<close>

definition isWhiteSpace :: "16 word \<Rightarrow> bool" where
  "isWhiteSpace c \<longleftrightarrow>
     c \<in> {0x9, 0xA, 0xB, 0xC, 0xD, 0x20, 0xA0, 0x1680, 0x2028, 0x2029,
          0x202F, 0x205F, 0x3000, 0xFEFF}
     \<or> (0x2000 \<le> c \<and> c \<le> 0x200A)"

definition trim :: "js_string \<Rightarrow> js_string" where
  "trim s = rev (dropWhile isWhiteSpace (rev (dropWhile isWhiteSpace s)))"

text \<open>
  The result of \<open>response.json()\<close>. JSON numbers are finite, so a rational carries
  every number a body can hold; the handlers never compute on them. An object keeps its
  members in the order of the text.
\<close>

datatype json =
    JNull
  | JBool bool
  | JNum rat
  | JStr js_string
  | JArr "json list"
  | JObj "(js_string \<times> json) list"

text \<open>A value read from a property: \<open>undefined\<close> when the property is absent.\<close>

datatype js_value = Undefined | Val json

text \<open>
  What a \<open>try\<close> block can throw: the runtime's errors, and the \<open>new Error(...)\<close> of the
  source with a fixed text, with the response status or with a value of the payload.
\<close>

datatype thrown =
    TypeError
  | SyntaxError
  | NetworkFailure
  | Error js_string
  | HttpError nat
  | ErrorOf js_value

text \<open>
  \<open>data.key\<close> for the property names this client reads (\<open>results\<close>, \<open>success\<close>,
  \<open>role\<close>, \<open>errors\<close>, \<open>error\<close>, \<open>report\<close>, \<open>issues\<close>, ...), none of which is
  a property of a string, number, boolean or array. Reading a property of \<open>null\<close> throws
  a TypeError; of two members with the same key \<open>JSON.parse\<close> keeps the last.
\<close>

fun get_prop :: "json \<Rightarrow> js_string \<Rightarrow> thrown + js_value" where
  "get_prop JNull key = Inl TypeError"
| "get_prop (JObj members) key =
     Inr (case map_of (rev members) key of None \<Rightarrow> Undefined | Some v \<Rightarrow> Val v)"
| "get_prop other key = Inr Undefined"

fun get_prop_value :: "js_value \<Rightarrow> js_string \<Rightarrow> thrown + js_value" where
  "get_prop_value Undefined key = Inl TypeError"
| "get_prop_value (Val v) key = get_prop v key"

text \<open>Truthiness (\<open>ToBoolean\<close>) of a value.\<close>

fun truthy_json :: "json \<Rightarrow> bool" where
  "truthy_json JNull = False"
| "truthy_json (JBool b) = b"
| "truthy_json (JNum r) = (r \<noteq> 0)"
| "truthy_json (JStr s) = (s \<noteq> [])"
| "truthy_json (JArr xs) = True"
| "truthy_json (JObj members) = True"

fun truthy :: "js_value \<Rightarrow> bool" where
  "truthy Undefined = False"
| "truthy (Val v) = truthy_json v"

text \<open>\<open>a || b\<close> on values.\<close>

definition or_else :: "js_value \<Rightarrow> json \<Rightarrow> json" where
  "or_else a b = (case a of Undefined \<Rightarrow> b | Val v \<Rightarrow> if truthy_json v then v else b)"

text \<open>A property read that is known not to throw (the object was read before).\<close>

definition or_undefined :: "thrown + js_value \<Rightarrow> js_value" where
  "or_undefined x = (case x of Inl e \<Rightarrow> Undefined | Inr v \<Rightarrow> v)"

fun intercalate :: "'a list \<Rightarrow> 'a list list \<Rightarrow> 'a list" where
  "intercalate sep [] = []"
| "intercalate sep [x] = x"
| "intercalate sep (x # y # ys) = x @ sep @ intercalate sep (y # ys)"

text \<open>
  \<open>Array.prototype.join\<close>: \<open>null\<close> elements give the empty string, the others their
  \<open>ToString\<close>. The runtime's conversion of a number to its decimal text is the
  parameter \<open>num\<close>.
\<close>

fun join_element :: "(rat \<Rightarrow> js_string) \<Rightarrow> json \<Rightarrow> js_string" where
  "join_element num JNull = []"
| "join_element num (JBool b) = (if b then ascii ''true'' else ascii ''false'')"
| "join_element num (JNum r) = num r"
| "join_element num (JStr s) = s"
| "join_element num (JArr xs) = intercalate (ascii '','') (map (join_element num) xs)"
| "join_element num (JObj members) = ascii ''[object Object]''"

definition join :: "(rat \<Rightarrow> js_string) \<Rightarrow> js_string \<Rightarrow> json list \<Rightarrow> js_string" where
  "join num sep xs = intercalate sep (map (join_element num) xs)"

text \<open>\<open>ToString\<close>, as an assignment to \<open>textContent\<close> applies it.\<close>

definition to_string :: "(rat \<Rightarrow> js_string) \<Rightarrow> json \<Rightarrow> js_string" where
  "to_string num v = (case v of JNull \<Rightarrow> ascii ''null'' | _ \<Rightarrow> join_element num v)"

section \<open>Network requests and responses\<close>

text \<open>
  A \<open>File\<close>: its name, its size in bytes, and the text \<open>readAsText\<close> gives for it
  (only the dashboard reads the text; the static page looks at the size alone).
\<close>

record js_file =
  file_name :: js_string
  file_size :: nat
  file_text :: js_string

datatype form_part =
    Blob_part (blob_content: js_string) (blob_type: js_string) (blob_filename: js_string)
  | File_part js_file
  | Text_part js_string

datatype request_body =
    No_body
  | Multipart "(js_string \<times> form_part) list"
  | Json_text json

datatype http_method = GET | POST

record request =
  url :: js_string
  http_method :: http_method
  body :: request_body

datatype response_body = Malformed | Parsed json

text \<open>
  What \<open>await fetch(...)\<close> gives: the promise rejects (\<open>Network_error\<close>) or resolves
  to a response with a status and a body that \<open>response.json()\<close> parses or rejects.
\<close>

datatype response = Network_error | Response (status: nat) (content: response_body)

fun ok :: "response \<Rightarrow> bool" where
  "ok Network_error = False"
| "ok (Response st b) = (200 \<le> st \<and> st \<le> 299)"

section \<open>The dashboard (component \<open>Dashboard\<close>)\<close>

datatype lang = En | Ur

datatype kind = Quality | Bugs | Docs | Security

datatype msg_key = noCodeError | analysisError

text \<open>The two entries of the table \<open>translations\<close> of the source that the handlers show.\<close>

fun translation :: "lang \<Rightarrow> msg_key \<Rightarrow> js_string" where
  "translation En noCodeError = ascii ''Please upload a file or paste code first''"
| "translation En analysisError = ascii ''Analysis failed. Please try again.''"
| "translation Ur noCodeError =
     [0x628, 0x631, 0x627, 0x6c1, 0x20, 0x6a9, 0x631, 0x645, 0x20, 0x67e, 0x6c1, 0x644,
      0x6d2, 0x20, 0x641, 0x627, 0x626, 0x644, 0x20, 0x627, 0x67e, 0x20, 0x644, 0x648,
      0x688, 0x20, 0x6cc, 0x627, 0x20, 0x6a9, 0x648, 0x688, 0x20, 0x67e, 0x6cc, 0x633,
      0x679, 0x20, 0x6a9, 0x631, 0x6cc, 0x6ba]"
| "translation Ur analysisError =
     [0x62a, 0x62c, 0x632, 0x6cc, 0x6c1, 0x20, 0x646, 0x627, 0x6a9, 0x627, 0x645, 0x20,
      0x6c1, 0x648, 0x20, 0x6af, 0x6cc, 0x627, 0x6d4, 0x20, 0x62f, 0x648, 0x628, 0x627,
      0x631, 0x6c1, 0x20, 0x6a9, 0x648, 0x634, 0x634, 0x20, 0x6a9, 0x631, 0x6cc, 0x6ba,
      0x6d4]"

fun lang_code :: "lang \<Rightarrow> js_string" where
  "lang_code En = ascii ''en''"
| "lang_code Ur = ascii ''ur''"

text \<open>
  The state hooks of the component that the analysis handlers read or write, each with the
  value its setter was last given. The result store and the expanded-panel set are objects
  keyed by the analysis kind. \<open>mounted\<close> tells whether React still renders the
  component: an error thrown while it renders is caught by nothing (the application has no
  error boundary), and React then unmounts the whole tree.
\<close>

record dashboard =
  uploadedFile :: "js_file option"
  codeInput :: js_string
  language :: lang
  isAnalyzing :: bool
  activeAnalysis :: "kind option"
  results :: "kind \<rightharpoonup> js_value"
  expandedSections :: "kind \<rightharpoonup> bool"
  mounted :: bool

definition initial_dashboard :: dashboard where
  "initial_dashboard =
     \<lparr>uploadedFile = None, codeInput = [], language = En, isAnalyzing = False,
      activeAnalysis = None, results = Map.empty, expandedSections = Map.empty,
      mounted = True\<rparr>"

text \<open>The identity the authentication page hands to the application.\<close>

record identity =
  username :: js_string
  role :: json

text \<open>The callbacks the client gives to \<open>setTimeout\<close>.\<close>

datatype callback = SecurityDone | NavigateTo js_string | ResetTranslateBtn

text \<open>
  What a handler does to the world outside its component state, in the order it does it:
  requests, dialogs, timers, file reads, errors thrown while React renders (which nothing
  catches), calls of the \<open>onAuthSuccess\<close> property, and
  on the static page the calls of \<open>showError\<close>, \<open>hideError\<close> and
  \<open>setLoadingState\<close>, the writes of the score widgets and the redirects.
\<close>

datatype effect =
    Fetch request
  | Alert js_string
  | SetTimeout nat callback
  | ReadAsText js_file
  | RenderError thrown
  | OnAuthSuccess identity
  | ConsoleError
  | ShowError js_string
  | ShowAnalysisFailed thrown
  | HideError
  | SetLoadingState bool
  | DisplayScores js_value
  | ShowResultsArea
  | ShowDownloadLinks json
  | SessionRemove js_string
  | SessionClear
  | LocalClear
  | Redirect js_string

text \<open>What a handler leaves running when it returns to the event loop.\<close>

datatype task = QualityFetch lang | BugsFetch lang | DocsFetch lang | SecurityTimer

text \<open>\<open>const getCodeToAnalyze = () => codeInput.trim() || null\<close>\<close>

definition getCodeToAnalyze :: "dashboard \<Rightarrow> js_string option" where
  "getCodeToAnalyze s = (let c = trim (codeInput s) in if c = [] then None else Some c)"

text \<open>\<open>uploadedFile?.name || 'code.py'\<close>\<close>

definition blob_name :: "dashboard \<Rightarrow> js_string" where
  "blob_name s =
     (case uploadedFile s of
        None \<Rightarrow> ascii ''code.py''
      | Some f \<Rightarrow> if file_name f = [] then ascii ''code.py'' else file_name f)"

text \<open>The \<open>finally\<close> block of the three fetching handlers.\<close>

definition finally_idle :: "dashboard \<Rightarrow> dashboard" where
  "finally_idle s = s\<lparr>isAnalyzing := False, activeAnalysis := None\<rparr>"

text \<open>
  The part of the \<open>try\<close> block after the request, the same in the three handlers:
  \<open>if (!response.ok) throw new Error('Analysis failed'); const data = await
  response.json();\<close>. It gives \<open>data\<close> or throws into the \<open>catch\<close>.
\<close>

fun awaited_data :: "response \<Rightarrow> thrown + json" where
  "awaited_data Network_error = Inl NetworkFailure"
| "awaited_data (Response st b) =
     (if \<not> ok (Response st b) then Inl (Error (ascii ''Analysis failed''))
      else case b of
             Malformed \<Rightarrow> Inl SyntaxError
           | Parsed data \<Rightarrow> Inr data)"

text \<open>
  The handlers then call \<open>setResults(prev => ({ ...prev, kind: data.results }))\<close>. The
  read of \<open>data.results\<close> is in the updater, which React runs when it renders the
  component, after the handler's \<open>try\<close>, \<open>catch\<close> and \<open>finally\<close>: the call itself
  does not throw. For a body \<open>null\<close> the updater throws a TypeError in the render, the
  \<open>catch\<close> never sees it and no alert is shown; React unmounts the tree. The handler has
  by then called \<open>setExpandedSections\<close> and, in \<open>finally\<close>, the two setters of the
  busy state. \<open>set_results k data s\<close> is the state and the render error, if any, that the
  calls of the \<open>try\<close> block after \<open>data\<close> is there lead to.
\<close>

definition set_results :: "kind \<Rightarrow> json \<Rightarrow> dashboard \<Rightarrow> dashboard \<times> effect list" where
  "set_results k data s =
     (case get_prop data (ascii ''results'') of
        Inr v \<Rightarrow>
          (s\<lparr>results := (results s)(k \<mapsto> v),
             expandedSections := (expandedSections s)(k \<mapsto> True)\<rparr>, [])
      | Inl e \<Rightarrow>
          (s\<lparr>expandedSections := (expandedSections s)(k \<mapsto> True), mounted := False\<rparr>,
           [RenderError e]))"

subsection \<open>analyzeQuality\<close>

definition analyzeQuality_request :: "dashboard \<Rightarrow> js_string \<Rightarrow> request" where
  "analyzeQuality_request s code =
     \<lparr>url = ascii ''http://localhost:5000/api/analyze/quality'',
      http_method = POST,
      body = Multipart
        [(ascii ''file'', Blob_part code (ascii ''text/plain'') (blob_name s)),
         (ascii ''language'', Text_part (lang_code (language s)))]\<rparr>"

definition analyzeQuality_begin :: "dashboard \<Rightarrow> dashboard \<times> effect list \<times> task option" where
  "analyzeQuality_begin s =
     (case getCodeToAnalyze s of
        None \<Rightarrow> (s, [Alert (translation (language s) noCodeError)], None)
      | Some code \<Rightarrow>
          (s\<lparr>isAnalyzing := True, activeAnalysis := Some Quality\<rparr>,
           [Fetch (analyzeQuality_request s code)],
           Some (QualityFetch (language s))))"

definition analyzeQuality_resume :: "lang \<Rightarrow> response \<Rightarrow> dashboard \<Rightarrow> dashboard \<times> effect list" where
  "analyzeQuality_resume l r s =
     (case awaited_data r of
        Inr data \<Rightarrow> (case set_results Quality data s of (s', fx) \<Rightarrow> (finally_idle s', fx))
      | Inl e \<Rightarrow> (finally_idle s, [Alert (translation l analysisError)]))"

subsection \<open>analyzeBugs\<close>

definition analyzeBugs_request :: "dashboard \<Rightarrow> js_string \<Rightarrow> request" where
  "analyzeBugs_request s code =
     \<lparr>url = ascii ''http://localhost:5000/api/analyze/bugs'',
      http_method = POST,
      body = Multipart
        [(ascii ''file'', Blob_part code (ascii ''text/plain'') (blob_name s)),
         (ascii ''language'', Text_part (lang_code (language s)))]\<rparr>"

definition analyzeBugs_begin :: "dashboard \<Rightarrow> dashboard \<times> effect list \<times> task option" where
  "analyzeBugs_begin s =
     (case getCodeToAnalyze s of
        None \<Rightarrow> (s, [Alert (translation (language s) noCodeError)], None)
      | Some code \<Rightarrow>
          (s\<lparr>isAnalyzing := True, activeAnalysis := Some Bugs\<rparr>,
           [Fetch (analyzeBugs_request s code)],
           Some (BugsFetch (language s))))"

definition analyzeBugs_resume :: "lang \<Rightarrow> response \<Rightarrow> dashboard \<Rightarrow> dashboard \<times> effect list" where
  "analyzeBugs_resume l r s =
     (case awaited_data r of
        Inr data \<Rightarrow> (case set_results Bugs data s of (s', fx) \<Rightarrow> (finally_idle s', fx))
      | Inl e \<Rightarrow> (finally_idle s, [Alert (translation l analysisError)]))"

subsection \<open>generateDocs\<close>

definition generateDocs_request :: "dashboard \<Rightarrow> js_string \<Rightarrow> request" where
  "generateDocs_request s code =
     \<lparr>url = ascii ''http://localhost:5000/api/analyze/documentation'',
      http_method = POST,
      body = Multipart
        [(ascii ''file'', Blob_part code (ascii ''text/plain'') (blob_name s)),
         (ascii ''language'', Text_part (lang_code (language s))),
         (ascii ''include_urdu'',
          Text_part (if language s = Ur then ascii ''true'' else ascii ''false''))]\<rparr>"

definition generateDocs_begin :: "dashboard \<Rightarrow> dashboard \<times> effect list \<times> task option" where
  "generateDocs_begin s =
     (case getCodeToAnalyze s of
        None \<Rightarrow> (s, [Alert (translation (language s) noCodeError)], None)
      | Some code \<Rightarrow>
          (s\<lparr>isAnalyzing := True, activeAnalysis := Some Docs\<rparr>,
           [Fetch (generateDocs_request s code)],
           Some (DocsFetch (language s))))"

definition generateDocs_resume :: "lang \<Rightarrow> response \<Rightarrow> dashboard \<Rightarrow> dashboard \<times> effect list" where
  "generateDocs_resume l r s =
     (case awaited_data r of
        Inr data \<Rightarrow> (case set_results Docs data s of (s', fx) \<Rightarrow> (finally_idle s', fx))
      | Inl e \<Rightarrow> (finally_idle s, [Alert (translation l analysisError)]))"

subsection \<open>runSecurityScan\<close>

definition security_issue :: "string \<Rightarrow> string \<Rightarrow> rat \<Rightarrow> string \<Rightarrow> json" where
  "security_issue sev ty line_no descr =
     JObj [(ascii ''severity'', JStr (ascii sev)), (ascii ''type'', JStr (ascii ty)),
           (ascii ''line'', JNum line_no), (ascii ''description'', JStr (ascii descr))]"

definition security_findings :: json where
  "security_findings =
     JObj [(ascii ''vulnerabilities'', JNum 2),
           (ascii ''securityScore'', JNum 75),
           (ascii ''issues'', JArr
              [security_issue ''high'' ''SQL Injection'' 45 ''Unsanitized user input'',
               security_issue ''medium'' ''XSS Risk'' 78 ''Unescaped output''])]"

definition runSecurityScan_begin :: "dashboard \<Rightarrow> dashboard \<times> effect list \<times> task option" where
  "runSecurityScan_begin s =
     (case getCodeToAnalyze s of
        None \<Rightarrow> (s, [Alert (translation (language s) noCodeError)], None)
      | Some code \<Rightarrow>
          (s\<lparr>isAnalyzing := True, activeAnalysis := Some Security\<rparr>,
           [SetTimeout 2000 SecurityDone],
           Some SecurityTimer))"

text \<open>The callback given to \<open>setTimeout\<close>.\<close>

definition runSecurityScan_timeout :: "dashboard \<Rightarrow> dashboard \<times> effect list" where
  "runSecurityScan_timeout s =
     (s\<lparr>results := (results s)(Security \<mapsto> Val security_findings),
        expandedSections := (expandedSections s)(Security \<mapsto> True),
        isAnalyzing := False, activeAnalysis := None\<rparr>, [])"

subsection \<open>The four action buttons\<close>

text \<open>The \<open>onClick\<close> handler of the button of each kind.\<close>

fun begin_analysis :: "kind \<Rightarrow> dashboard \<Rightarrow> dashboard \<times> effect list \<times> task option" where
  "begin_analysis Quality = analyzeQuality_begin"
| "begin_analysis Bugs = analyzeBugs_begin"
| "begin_analysis Docs = generateDocs_begin"
| "begin_analysis Security = runSecurityScan_begin"

text \<open>
  The continuation of a handler once its request resolves or its timer fires; the timer
  callback receives no response.
\<close>

fun settle :: "task \<Rightarrow> response \<Rightarrow> dashboard \<Rightarrow> dashboard \<times> effect list" where
  "settle (QualityFetch l) r s = analyzeQuality_resume l r s"
| "settle (BugsFetch l) r s = analyzeBugs_resume l r s"
| "settle (DocsFetch l) r s = generateDocs_resume l r s"
| "settle SecurityTimer r s = runSecurityScan_timeout s"

fun task_kind :: "task \<Rightarrow> kind" where
  "task_kind (QualityFetch l) = Quality"
| "task_kind (BugsFetch l) = Bugs"
| "task_kind (DocsFetch l) = Docs"
| "task_kind SecurityTimer = Security"

fun is_fetch :: "task \<Rightarrow> bool" where
  "is_fetch SecurityTimer = False"
| "is_fetch t = True"

text \<open>
  One whole run of a handler with nothing else happening in between: the click, then the
  answer \<open>r\<close> to the request it made (unused when it made none).
\<close>

definition analyze :: "kind \<Rightarrow> response \<Rightarrow> dashboard \<Rightarrow> dashboard \<times> effect list" where
  "analyze k r s =
     (case begin_analysis k s of
        (s', fx, None) \<Rightarrow> (s', fx)
      | (s', fx, Some t) \<Rightarrow> (let (s'', fx') = settle t r s' in (s'', fx @ fx')))"

text \<open>The requests among the things a handler did, in order.\<close>

definition requests_of :: "effect list \<Rightarrow> request list" where
  "requests_of fx = concat (map (\<lambda>e. case e of Fetch q \<Rightarrow> [q] | _ \<Rightarrow> []) fx)"

subsection \<open>Input and the other controls\<close>

text \<open>
  \<open>handleFileUpload\<close>: \<open>e.target.files[0]\<close>, when there is one, becomes the uploaded
  file and a reader is started on it; \<open>reader.onload\<close> later stores the text it read.
\<close>

definition handleFileUpload :: "js_file list \<Rightarrow> dashboard \<Rightarrow> dashboard \<times> effect list" where
  "handleFileUpload files s =
     (case files of
        [] \<Rightarrow> (s, [])
      | f # rest \<Rightarrow> (s\<lparr>uploadedFile := Some f\<rparr>, [ReadAsText f]))"

definition reader_onload :: "js_string \<Rightarrow> dashboard \<Rightarrow> dashboard" where
  "reader_onload result s = s\<lparr>codeInput := result\<rparr>"

text \<open>The \<open>onChange\<close> of the text area: \<open>setCodeInput(e.target.value)\<close>.\<close>

definition textarea_onChange :: "js_string \<Rightarrow> dashboard \<Rightarrow> dashboard" where
  "textarea_onChange v s = s\<lparr>codeInput := v\<rparr>"

definition setLanguage :: "lang \<Rightarrow> dashboard \<Rightarrow> dashboard" where
  "setLanguage l s = s\<lparr>language := l\<rparr>"

text \<open>
  \<open>onToggle\<close> of a result panel: \<open>p => ({ ...p, kind: !p.kind })\<close>. A panel is rendered
  only for a truthy entry of the result store.
\<close>

definition panel_shown :: "kind \<Rightarrow> dashboard \<Rightarrow> bool" where
  "panel_shown k s = (case results s k of None \<Rightarrow> False | Some v \<Rightarrow> truthy v)"

definition onToggle :: "kind \<Rightarrow> dashboard \<Rightarrow> dashboard" where
  "onToggle k s =
     s\<lparr>expandedSections :=
         (expandedSections s)(k \<mapsto> \<not> (case expandedSections s k of None \<Rightarrow> False | Some b \<Rightarrow> b))\<rparr>"

text \<open>\<open>handleLogout\<close>: one request, then the redirect whatever the outcome.\<close>

definition logout_request :: request where
  "logout_request =
     \<lparr>url = ascii ''http://localhost:5000/api/logout'', http_method = POST, body = No_body\<rparr>"

definition handleLogout :: "response \<Rightarrow> effect list" where
  "handleLogout r = [Fetch logout_request, Redirect (ascii ''/'')]"

subsection \<open>The dashboard between events\<close>

text \<open>
  A handler runs to its first \<open>await\<close> (or to its end) inside the click; what it left
  pending is continued by a later event. The world is the component state, the pending
  continuations, the file reads under way and everything done so far.
\<close>

record world =
  ui :: dashboard
  pending :: "task list"
  reading :: "js_file list"
  trace :: "effect list"

definition initial_world :: world where
  "initial_world = \<lparr>ui = initial_dashboard, pending = [], reading = [], trace = []\<rparr>"

datatype event =
    Click kind
  | Respond nat response
  | Fire nat
  | ChooseFile "js_file list"
  | Loaded nat
  | Edit js_string
  | SetLanguage lang
  | Toggle kind

definition remove_nth :: "nat \<Rightarrow> 'a list \<Rightarrow> 'a list" where
  "remove_nth i xs = take i xs @ drop (Suc i) xs"

text \<open>
  The four buttons carry \<open>disabled={isAnalyzing}\<close>: a disabled button delivers no click,
  so the handler is not called; an unmounted component has no buttons and no other control.
  \<open>continue\<close> runs the continuation of pending task \<open>i\<close>; a timer callback is given no
  answer, and \<open>settle\<close> ignores the one passed.
\<close>

definition click :: "kind \<Rightarrow> world \<Rightarrow> world" where
  "click k w =
     (if mounted (ui w) \<and> \<not> isAnalyzing (ui w)
      then case begin_analysis k (ui w) of
             (s', fx, t) \<Rightarrow>
               w\<lparr>ui := s',
                 pending := pending w @ (case t of None \<Rightarrow> [] | Some x \<Rightarrow> [x]),
                 trace := trace w @ fx\<rparr>
      else w)"

definition continue :: "nat \<Rightarrow> response \<Rightarrow> world \<Rightarrow> world" where
  "continue i r w =
     (case settle (pending w ! i) r (ui w) of
        (s', fx) \<Rightarrow> w\<lparr>ui := s', pending := remove_nth i (pending w), trace := trace w @ fx\<rparr>)"

fun step :: "event \<Rightarrow> world \<Rightarrow> world" where
  "step (Click k) w = click k w"
| "step (Respond i r) w =
     (if i < length (pending w) \<and> is_fetch (pending w ! i) then continue i r w else w)"
| "step (Fire i) w =
     (if i < length (pending w) \<and> pending w ! i = SecurityTimer
      then continue i Network_error w else w)"
| "step (ChooseFile files) w =
     (if mounted (ui w)
      then case handleFileUpload files (ui w) of
             (s', fx) \<Rightarrow>
               w\<lparr>ui := s', reading := reading w @ (case files of [] \<Rightarrow> [] | f # rest \<Rightarrow> [f]),
                 trace := trace w @ fx\<rparr>
      else w)"
| "step (Loaded i) w =
     (if i < length (reading w)
      then w\<lparr>ui := reader_onload (file_text (reading w ! i)) (ui w),
             reading := remove_nth i (reading w)\<rparr>
      else w)"
| "step (Edit v) w = (if mounted (ui w) then w\<lparr>ui := textarea_onChange v (ui w)\<rparr> else w)"
| "step (SetLanguage l) w = (if mounted (ui w) then w\<lparr>ui := setLanguage l (ui w)\<rparr> else w)"
| "step (Toggle k) w =
     (if mounted (ui w) \<and> panel_shown k (ui w) then w\<lparr>ui := onToggle k (ui w)\<rparr> else w)"

inductive reachable :: "world \<Rightarrow> bool" where
  start: "reachable initial_world"
| after: "reachable w \<Longrightarrow> reachable (step e w)"

text \<open>The analyses under way: requests not yet answered and timers not yet fired.\<close>

definition in_flight :: "world \<Rightarrow> nat" where
  "in_flight w = length (pending w)"

text \<open>The file names of the \<open>file\<close> parts a list of requests carries.\<close>

definition file_part :: "request \<Rightarrow> form_part option" where
  "file_part q = (case body q of Multipart parts \<Rightarrow> map_of parts (ascii ''file'') | _ \<Rightarrow> None)"

definition file_names_sent :: "effect list \<Rightarrow> js_string option list" where
  "file_names_sent fx = map (\<lambda>q. map_option blob_filename (file_part q)) (requests_of fx)"

text \<open>A run fails: the request is rejected, the status is not 2xx, or the body is not JSON.\<close>

fun run_fails :: "response \<Rightarrow> bool" where
  "run_fails Network_error = True"
| "run_fails (Response st b) = (\<not> (200 \<le> st \<and> st \<le> 299) \<or> b = Malformed)"

section \<open>The result views\<close>

text \<open>
  One rendered entry of an issue list: its React key (the index), the colour of its icon,
  the children of its text span and of its line span.
\<close>

record issue_row =
  row_key :: nat
  row_colour :: js_string
  row_text :: "js_value list"
  row_line :: "js_value list"

definition str :: "string \<Rightarrow> js_value" where
  "str s = Val (JStr (ascii s))"

text \<open>The callback of \<open>results.issues.slice(0, 10).map\<close> in \<open>QualityResults\<close>.\<close>

definition quality_issue :: "nat \<Rightarrow> json \<Rightarrow> thrown + issue_row" where
  "quality_issue idx issue =
     (case get_prop issue (ascii ''severity'') of
        Inl e \<Rightarrow> Inl e
      | Inr severity \<Rightarrow>
          Inr \<lparr>row_key = idx,
               row_colour =
                 (if severity = str ''high'' then ascii ''#ef4444''
                  else if severity = str ''medium'' then ascii ''#f59e0b''
                  else ascii ''#6b7280''),
               row_text = [or_undefined (get_prop issue (ascii ''message''))],
               row_line = [str ''Line '', or_undefined (get_prop issue (ascii ''line''))]\<rparr>)"

text \<open>The callback of \<open>results.bugs.slice(0, 10).map\<close> in \<open>BugResults\<close>.\<close>

definition bug_entry :: "nat \<Rightarrow> json \<Rightarrow> thrown + issue_row" where
  "bug_entry idx bug =
     (case get_prop bug (ascii ''type'') of
        Inl e \<Rightarrow> Inl e
      | Inr ty \<Rightarrow>
          Inr \<lparr>row_key = idx,
               row_colour = ascii ''#ef4444'',
               row_text = [ty, str '': '', or_undefined (get_prop bug (ascii ''description''))],
               row_line = [str ''Line '', or_undefined (get_prop bug (ascii ''line''))]\<rparr>)"

text \<open>The callback of \<open>results.issues.map\<close> in \<open>SecurityResults\<close>.\<close>

definition security_entry :: "nat \<Rightarrow> json \<Rightarrow> thrown + issue_row" where
  "security_entry idx issue =
     (case get_prop issue (ascii ''severity'') of
        Inl e \<Rightarrow> Inl e
      | Inr severity \<Rightarrow>
          Inr \<lparr>row_key = idx,
               row_colour =
                 (if severity = str ''critical'' then ascii ''#ef4444'' else ascii ''#f59e0b''),
               row_text = [or_undefined (get_prop issue (ascii ''type'')), str '': '',
                           or_undefined (get_prop issue (ascii ''description''))],
               row_line = [str ''Line '', or_undefined (get_prop issue (ascii ''line''))]\<rparr>)"

text \<open>\<open>xs.map((x, idx) => ...)\<close>, from index \<open>i\<close> on; the first throw ends the render.\<close>

fun map_indexed :: "(nat \<Rightarrow> json \<Rightarrow> thrown + 'r) \<Rightarrow> nat \<Rightarrow> json list \<Rightarrow> thrown + 'r list" where
  "map_indexed f i [] = Inr []"
| "map_indexed f i (x # xs) =
     (case f i x of
        Inl e \<Rightarrow> Inl e
      | Inr y \<Rightarrow> (case map_indexed f (Suc i) xs of Inl e \<Rightarrow> Inl e | Inr ys \<Rightarrow> Inr (y # ys)))"

text \<open>
  \<open>list && list.length > 0 && (... view(list) ...)\<close>. Nothing is rendered for a falsy
  value, for an empty array and for a value with no \<open>length\<close>. A non-empty string passes
  both tests and then has no \<open>map\<close>; an object passes them when it has a member
  \<open>length\<close> that the runtime finds greater than zero (the parameter \<open>positive\<close> is the
  runtime's \<open>v > 0\<close>), and then has no \<open>slice\<close> and no \<open>map\<close>.
\<close>

definition issue_list ::
  "(json \<Rightarrow> bool) \<Rightarrow> (json list \<Rightarrow> thrown + issue_row list) \<Rightarrow> js_value \<Rightarrow> thrown + issue_row list"
where
  "issue_list positive view v =
     (case v of
        Val (JArr xs) \<Rightarrow> if length xs > 0 then view xs else Inr []
      | Val (JStr s) \<Rightarrow> if s \<noteq> [] then Inl TypeError else Inr []
      | Val (JObj members) \<Rightarrow>
          (case map_of (rev members) (ascii ''length'') of
             None \<Rightarrow> Inr []
           | Some n \<Rightarrow> if positive n then Inl TypeError else Inr [])
      | _ \<Rightarrow> Inr [])"

definition QualityResults :: "(json \<Rightarrow> bool) \<Rightarrow> json \<Rightarrow> thrown + issue_row list" where
  "QualityResults positive res =
     (case get_prop res (ascii ''issues'') of
        Inl e \<Rightarrow> Inl e
      | Inr v \<Rightarrow> issue_list positive (\<lambda>xs. map_indexed quality_issue 0 (take 10 xs)) v)"

definition BugResults :: "(json \<Rightarrow> bool) \<Rightarrow> json \<Rightarrow> thrown + issue_row list" where
  "BugResults positive res =
     (case get_prop res (ascii ''bugs'') of
        Inl e \<Rightarrow> Inl e
      | Inr v \<Rightarrow> issue_list positive (\<lambda>xs. map_indexed bug_entry 0 (take 10 xs)) v)"

definition SecurityResults :: "(json \<Rightarrow> bool) \<Rightarrow> json \<Rightarrow> thrown + issue_row list" where
  "SecurityResults positive res =
     (case get_prop res (ascii ''issues'') of
        Inl e \<Rightarrow> Inl e
      | Inr v \<Rightarrow> issue_list positive (\<lambda>xs. map_indexed security_entry 0 xs) v)"

section \<open>The authentication page (component \<open>AuthPage\<close>) and the application\<close>

record auth_form =
  name :: js_string
  email :: js_string
  password :: js_string

text \<open>
  The state hooks of the page. \<open>error\<close> holds whatever \<open>setError\<close> was given: a text,
  or the value of the payload's \<open>error\<close> member.
\<close>

record auth_page =
  isLogin :: bool
  formData :: auth_form
  loading :: bool
  error :: json
  success :: js_string

definition API_BASE_URL :: js_string where
  "API_BASE_URL = ascii ''http://localhost:5000/api''"

definition handleSubmit_request :: "auth_page \<Rightarrow> request" where
  "handleSubmit_request p =
     \<lparr>url = API_BASE_URL @ (if isLogin p then ascii ''/login'' else ascii ''/register''),
      http_method = POST,
      body = Json_text
        (if isLogin p
         then JObj [(ascii ''username'', JStr (email (formData p))),
                    (ascii ''password'', JStr (password (formData p)))]
         else JObj [(ascii ''username'', JStr (email (formData p))),
                    (ascii ''password'', JStr (password (formData p))),
                    (ascii ''role'', JStr (ascii ''user''))])\<rparr>"

text \<open>
  The \<open>else\<close> branch of \<open>handleSubmit\<close>: the text set by \<open>setError\<close>, or the throw of
  \<open>data.errors.join\<close> when \<open>errors\<close> is truthy and not an array.
\<close>

definition failure_message :: "(rat \<Rightarrow> js_string) \<Rightarrow> json \<Rightarrow> thrown + json" where
  "failure_message num data =
     (case get_prop data (ascii ''errors'') of
        Inl e \<Rightarrow> Inl e
      | Inr errs \<Rightarrow>
          if truthy errs then
            (case errs of
               Val (JArr xs) \<Rightarrow> Inr (JStr (join num (ascii '', '') xs))
             | _ \<Rightarrow> Inl TypeError)
          else
            (case get_prop data (ascii ''error'') of
               Inl e \<Rightarrow> Inl e
             | Inr err \<Rightarrow>
                 Inr (or_else err (JStr (ascii ''An error occurred. Please try again.'')))))"

text \<open>
  The \<open>try\<close> block of \<open>handleSubmit\<close> after the request: the state it leaves and what
  it does, or what it throws. \<open>onAuthSuccess\<close> tells whether the property was given.
\<close>

definition handleSubmit_try ::
  "(rat \<Rightarrow> js_string) \<Rightarrow> bool \<Rightarrow> response \<Rightarrow> auth_page \<Rightarrow> thrown + auth_page \<times> effect list"
where
  "handleSubmit_try num onAuthSuccess r p =
     (case r of
        Network_error \<Rightarrow> Inl NetworkFailure
      | Response st b \<Rightarrow>
          (case b of
             Malformed \<Rightarrow> Inl SyntaxError
           | Parsed data \<Rightarrow>
               (case (if ok r then get_prop data (ascii ''success'') else Inr Undefined) of
                  Inl e \<Rightarrow> Inl e
                | Inr flag \<Rightarrow>
                    if ok r \<and> truthy flag then
                      Inr (p\<lparr>success := (if isLogin p then ascii ''Login successful!''
                                          else ascii ''Account created successfully!'')\<rparr>,
                           (if onAuthSuccess
                            then [OnAuthSuccess
                                    \<lparr>username = email (formData p),
                                     role = or_else (or_undefined (get_prop data (ascii ''role'')))
                                              (JStr (ascii ''user''))\<rparr>]
                            else [])
                           @ [SetTimeout 1000 (NavigateTo (ascii ''/dashboard''))])
                    else
                      (case failure_message num data of
                         Inl e \<Rightarrow> Inl e
                       | Inr m \<Rightarrow> Inr (p\<lparr>error := m\<rparr>, [])))))"

definition handleSubmit ::
  "(rat \<Rightarrow> js_string) \<Rightarrow> bool \<Rightarrow> response \<Rightarrow> auth_page \<Rightarrow> auth_page \<times> effect list"
where
  "handleSubmit num onAuthSuccess r p =
     (let p0 = p\<lparr>loading := True, error := JStr [], success := []\<rparr>
      in case handleSubmit_try num onAuthSuccess r p0 of
           Inr (p1, fx) \<Rightarrow> (p1\<lparr>loading := False\<rparr>, Fetch (handleSubmit_request p) # fx)
         | Inl e \<Rightarrow>
             (p0\<lparr>error := JStr (ascii ''Failed to connect to server. Please try again.''),
                 loading := False\<rparr>,
              [Fetch (handleSubmit_request p), ConsoleError]))"

text \<open>
  The application: the signed-in user and the current route. The route \<open>/auth\<close> renders
  the page with \<open>onAuthSuccess={handleAuthSuccess}\<close>; \<open>navigate\<close> changes the route.
\<close>

record app =
  user :: "identity option"
  route :: js_string

definition handleAuthSuccess :: "identity \<Rightarrow> app \<Rightarrow> app" where
  "handleAuthSuccess userData a = a\<lparr>user := Some userData\<rparr>"

definition app_effect :: "effect \<Rightarrow> app \<Rightarrow> app" where
  "app_effect e a = (case e of OnAuthSuccess u \<Rightarrow> handleAuthSuccess u a | _ \<Rightarrow> a)"

definition run_callback :: "callback \<Rightarrow> app \<Rightarrow> app" where
  "run_callback c a = (case c of NavigateTo path \<Rightarrow> a\<lparr>route := path\<rparr> | _ \<Rightarrow> a)"

text \<open>A submit on the route \<open>/auth\<close>, and then the timers it set, fired in order.\<close>

definition submit_on_auth_route ::
  "(rat \<Rightarrow> js_string) \<Rightarrow> response \<Rightarrow> app \<times> auth_page \<Rightarrow> app \<times> auth_page \<times> effect list"
where
  "submit_on_auth_route num r ap =
     (case handleSubmit num True r (snd ap) of
        (p', fx) \<Rightarrow> (fold app_effect fx (fst ap), p', fx))"

definition timers :: "effect list \<Rightarrow> callback list" where
  "timers fx = concat (map (\<lambda>e. case e of SetTimeout ms c \<Rightarrow> [c] | _ \<Rightarrow> []) fx)"

definition after_timers :: "effect list \<Rightarrow> app \<Rightarrow> app" where
  "after_timers fx a = fold run_callback (timers fx) a"

text \<open>The two logouts of the application: one request, then the page is reloaded at \<open>/\<close>.\<close>

definition handleLogoutClick :: "response \<Rightarrow> effect list" where
  "handleLogoutClick r =
     (case r of
        Network_error \<Rightarrow> [Fetch logout_request, ConsoleError, Redirect (ascii ''/'')]
      | _ \<Rightarrow> [Fetch logout_request, Redirect (ascii ''/'')])"

section \<open>The static page (\<open>static/script.js\<close>)\<close>

datatype button_text = TranslateToUrdu | Translating | Translated

record translate_button =
  disabled :: bool
  textContent :: button_text

text \<open>
  What the handlers of the page read back: the selected files, \<open>currentReport\<close>
  (\<open>null\<close> at first), the text of the two \<open>pre\<close> elements and the translate button,
  each absent when the page has no such element.
\<close>

record static_page =
  files :: "js_file list"
  currentReport :: js_value
  bugReportPre :: "js_string option"
  correctedCodePre :: "js_string option"
  translateBtn :: "translate_button option"

definition maxSize :: nat where
  "maxSize = 10 * 1024 * 1024"

definition analyze_request :: "js_file \<Rightarrow> request" where
  "analyze_request f =
     \<lparr>url = ascii ''/analyze'', http_method = POST,
      body = Multipart [(ascii ''file'', File_part f)]\<rparr>"

text \<open>\<open>setText(el, val)\<close> on one of the two \<open>pre\<close> elements.\<close>

definition setText :: "(rat \<Rightarrow> js_string) \<Rightarrow> js_string option \<Rightarrow> json \<Rightarrow> js_string option" where
  "setText num el val = (case el of None \<Rightarrow> None | Some old \<Rightarrow> Some (to_string num val))"

text \<open>
  The submit handler from \<open>const report = payload.report\<close> on: the report is stored, the
  results area is shown, and the reads of \<open>report.scores.overall\<close> throw when the report
  or its scores are missing; otherwise the widgets, the two texts and the download links
  are written.
\<close>

definition show_report ::
  "(rat \<Rightarrow> js_string) \<Rightarrow> json \<Rightarrow> static_page \<Rightarrow> static_page \<times> effect list \<times> thrown option"
where
  "show_report num payload p =
     (let report = or_undefined (get_prop payload (ascii ''report''));
          p1 = p\<lparr>currentReport := report\<rparr>
      in case get_prop_value report (ascii ''scores'') of
           Inl e \<Rightarrow> (p1, [ShowResultsArea], Some e)
         | Inr scores \<Rightarrow>
             if scores = Undefined \<or> scores = Val JNull
             then (p1, [ShowResultsArea], Some TypeError)
             else
               (p1\<lparr>bugReportPre :=
                     setText num (bugReportPre p)
                       (or_else (or_undefined (get_prop_value report (ascii ''bug_report'')))
                          (JStr (ascii ''[no bug report]''))),
                   correctedCodePre :=
                     setText num (correctedCodePre p)
                       (or_else (or_undefined (get_prop_value report (ascii ''corrected_code'')))
                          (JStr (ascii ''[no corrected code]'')))\<rparr>,
                [ShowResultsArea, DisplayScores scores, ShowDownloadLinks payload], None))"

text \<open>The \<open>try\<close> block of the submit handler after the request.\<close>

definition upload_try ::
  "(rat \<Rightarrow> js_string) \<Rightarrow> response \<Rightarrow> static_page \<Rightarrow> static_page \<times> effect list \<times> thrown option"
where
  "upload_try num r p =
     (case r of
        Network_error \<Rightarrow> (p, [], Some NetworkFailure)
      | Response st b \<Rightarrow>
          if st = 401 then (p, [SessionRemove (ascii ''isLoggedIn''), Redirect (ascii ''/login'')], None)
          else if \<not> ok r then (p, [], Some (HttpError st))
          else
            (case b of
               Malformed \<Rightarrow> (p, [], Some SyntaxError)
             | Parsed payload \<Rightarrow>
                 (case get_prop payload (ascii ''error'') of
                    Inl e \<Rightarrow> (p, [], Some e)
                  | Inr err \<Rightarrow>
                      if truthy err then (p, [], Some (ErrorOf err))
                      else show_report num payload p)))"

text \<open>The submit handler of the upload form.\<close>

definition upload_submit ::
  "(rat \<Rightarrow> js_string) \<Rightarrow> response \<Rightarrow> static_page \<Rightarrow> static_page \<times> effect list"
where
  "upload_submit num r p =
     (case files p of
        [] \<Rightarrow> (p, [HideError, ShowError (ascii ''Please select a file first.'')])
      | f # rest \<Rightarrow>
          if file_size f > maxSize
          then (p, [HideError, ShowError (ascii ''File size too large. Maximum 10MB allowed.'')])
          else
            (case upload_try num r p of
               (p', fx, thrown) \<Rightarrow>
                 (p',
                  [HideError, SetLoadingState True, HideError, Fetch (analyze_request f)]
                  @ fx
                  @ (case thrown of None \<Rightarrow> [] | Some e \<Rightarrow> [ConsoleError, ShowAnalysisFailed e])
                  @ [SetLoadingState False])))"

definition translate_request :: "js_string \<Rightarrow> request" where
  "translate_request text =
     \<lparr>url = ascii ''/translate_to_urdu'', http_method = POST,
      body = Json_text (JObj [(ascii ''text'', JStr text)])\<rparr>"

text \<open>\<open>translateToUrdu(text)\<close>: what it returns, and what it does.\<close>

definition translateToUrdu :: "js_string \<Rightarrow> response \<Rightarrow> json \<times> effect list" where
  "translateToUrdu text r =
     (case (case r of
              Network_error \<Rightarrow> Inl NetworkFailure
            | Response st b \<Rightarrow>
                if \<not> ok r then Inl (Error (ascii ''Translation failed''))
                else (case b of
                        Malformed \<Rightarrow> Inl SyntaxError
                      | Parsed data \<Rightarrow> get_prop data (ascii ''translated_text''))) of
        Inr translated \<Rightarrow> (or_else translated (JStr text), [Fetch (translate_request text)])
      | Inl e \<Rightarrow>
          (JStr text,
           [Fetch (translate_request text), ConsoleError,
            ShowError (ascii ''Translation failed. Please try again.'')]))"

text \<open>
  One of the two blocks of the translate handler: an element that exists, has a text and does
  not show its placeholder gets the translation of its text.
\<close>

definition translate_element ::
  "(rat \<Rightarrow> js_string) \<Rightarrow> js_string \<Rightarrow> response \<Rightarrow> js_string option \<Rightarrow> js_string option \<times> effect list"
where
  "translate_element num placeholder r el =
     (case el of
        None \<Rightarrow> (None, [])
      | Some original \<Rightarrow>
          if original = [] \<or> original = placeholder then (el, [])
          else (case translateToUrdu original r of (v, fx) \<Rightarrow> (Some (to_string num v), fx)))"

text \<open>
  The click handler of the translate button; \<open>r1\<close> and \<open>r2\<close> answer the request for
  the bug report and the request for the corrected code, when they are made.
\<close>

definition translate_click ::
  "(rat \<Rightarrow> js_string) \<Rightarrow> response \<Rightarrow> response \<Rightarrow> static_page \<Rightarrow> static_page \<times> effect list"
where
  "translate_click num r1 r2 p =
     (case translateBtn p of
        None \<Rightarrow> (p, [])
      | Some b \<Rightarrow>
          if disabled b then (p, [])
          else if \<not> truthy (currentReport p)
          then (p, [ShowError (ascii ''No report available to translate'')])
          else
            (case translate_element num (ascii ''[no bug report]'') r1 (bugReportPre p) of
               (bug', fx1) \<Rightarrow>
                 (case translate_element num (ascii ''[no corrected code]'') r2 (correctedCodePre p) of
                    (code', fx2) \<Rightarrow>
                      (p\<lparr>bugReportPre := bug', correctedCodePre := code',
                         translateBtn := Some \<lparr>disabled = True, textContent = Translated\<rparr>\<rparr>,
                       fx1 @ fx2 @ [SetTimeout 2000 ResetTranslateBtn]))))"

text \<open>The reset button: no request.\<close>

definition reset_click :: "static_page \<Rightarrow> static_page \<times> effect list" where
  "reset_click p = (p\<lparr>files := [], currentReport := Val JNull\<rparr>, [HideError, SetLoadingState False])"

text \<open>\<open>logout()\<close> of the static page.\<close>

definition static_logout_request :: request where
  "static_logout_request = \<lparr>url = ascii ''/api/logout'', http_method = POST, body = No_body\<rparr>"

definition logout :: "response \<Rightarrow> effect list" where
  "logout r =
     (if ok r
      then [Fetch static_logout_request, SessionClear, LocalClear, Redirect (ascii ''/login'')]
      else [Fetch static_logout_request, ConsoleError, SessionClear, Redirect (ascii ''/login'')])"

section \<open>States and payloads used as examples\<close>

definition pasted :: dashboard where
  "pasted = initial_dashboard\<lparr>codeInput := ascii ''def f(): pass''\<rparr>"

definition busy :: "kind \<Rightarrow> dashboard" where
  "busy k = pasted\<lparr>isAnalyzing := True, activeAnalysis := Some k,
      results := [Quality \<mapsto> Val (JObj [(ascii ''overall_score'', JNum 82)])]\<rparr>"

definition main_js :: js_file where
  "main_js = \<lparr>file_name = ascii ''main.js'', file_size = 10, file_text = ascii ''let x = 1;''\<rparr>"

definition uploaded :: dashboard where
  "uploaded = pasted\<lparr>uploadedFile := Some main_js\<rparr>"

definition quality_running :: world where
  "quality_running = step (Click Quality) (step (Edit (ascii ''def f(): pass'')) initial_world)"

text \<open>The quality run above, answered with status 200 and the JSON body \<open>null\<close>.\<close>

definition null_answered :: world where
  "null_answered = step (Respond 0 (Response 200 (Parsed JNull))) quality_running"

definition twelve :: "json list" where
  "twelve = map (\<lambda>n. JObj [(ascii ''line'', JNum (of_nat n))]) [0..<12]"

definition twelve_found :: json where
  "twelve_found = JObj [(ascii ''issues'', JArr twelve), (ascii ''bugs'', JArr twelve)]"

definition login_form :: auth_page where
  "login_form =
     \<lparr>isLogin = True,
      formData = \<lparr>name = [], email = ascii ''a@b.com'', password = ascii ''x''\<rparr>,
      loading = False, error = JStr [], success = []\<rparr>"

definition signed_out :: app where
  "signed_out = \<lparr>user = None, route = ascii ''/auth''\<rparr>"

definition login_accepted :: response where
  "login_accepted =
     Response 200 (Parsed (JObj [(ascii ''success'', JBool True),
                                 (ascii ''role'', JStr (ascii ''user''))]))"

definition login_refused :: response where
  "login_refused =
     Response 400 (Parsed (JObj [(ascii ''errors'',
        JArr [JStr (ascii ''Invalid username''), JStr (ascii ''Password too short'')])]))"

definition fresh_page :: static_page where
  "fresh_page =
     \<lparr>files = [main_js], currentReport = Val JNull, bugReportPre = Some [],
      correctedCodePre = Some [],
      translateBtn = Some \<lparr>disabled = False, textContent = TranslateToUrdu\<rparr>\<rparr>"

definition report_payload :: json where
  "report_payload =
     JObj [(ascii ''report'',
            JObj [(ascii ''scores'', JObj [(ascii ''overall'', JNum 82)]),
                  (ascii ''bug_report'', JStr (ascii ''unused variable'')),
                  (ascii ''corrected_code'', JStr (ascii ''let y = 1;''))])]"

definition reported_page :: static_page where
  "reported_page = fst (upload_submit (\<lambda>q. []) (Response 200 (Parsed report_payload)) fresh_page)"

definition big_file :: js_file where
  "big_file = \<lparr>file_name = ascii ''big.py'', file_size = 10485761, file_text = []\<rparr>"

text \<open>The invariant of the dashboard between events.\<close>

definition serialized :: "world \<Rightarrow> bool" where
  "serialized w \<longleftrightarrow>
     length (pending w) \<le> 1 \<and> (isAnalyzing (ui w) = (pending w \<noteq> []))
     \<and> (\<forall>t. pending w = [t] \<longrightarrow> activeAnalysis (ui w) = Some (task_kind t))"

section \<open>Facts about the handlers\<close>

lemmas begin_defs =
  analyzeQuality_begin_def analyzeBugs_begin_def generateDocs_begin_def runSecurityScan_begin_def

lemmas resume_defs =
  analyzeQuality_resume_def analyzeBugs_resume_def generateDocs_resume_def
  runSecurityScan_timeout_def finally_idle_def set_results_def

lemmas request_defs =
  analyzeQuality_request_def analyzeBugs_request_def generateDocs_request_def

lemma getCodeToAnalyze_blank: "trim (codeInput s) = [] \<Longrightarrow> getCodeToAnalyze s = None"
  by (simp add: getCodeToAnalyze_def)

lemma getCodeToAnalyze_some:
  "trim (codeInput s) \<noteq> [] \<Longrightarrow> getCodeToAnalyze s = Some (trim (codeInput s))"
  by (simp add: getCodeToAnalyze_def)

lemma begin_analysis_blank:
  "trim (codeInput s) = [] \<Longrightarrow>
   begin_analysis k s = (s, [Alert (translation (language s) noCodeError)], None)"
  by (cases k) (simp_all add: begin_defs getCodeToAnalyze_blank)

lemma pasted_code: "trim (codeInput pasted) = ascii ''def f(): pass''"
  by (simp add: pasted_def initial_dashboard_def trim_def ascii_def isWhiteSpace_def)

lemma requests_of_Nil: "requests_of [] = []"
  by (simp add: requests_of_def)

lemma requests_of_Cons:
  "requests_of (e # fx) = (case e of Fetch q \<Rightarrow> [q] | _ \<Rightarrow> []) @ requests_of fx"
  by (simp add: requests_of_def)

lemma requests_of_append: "requests_of (fx @ fx') = requests_of fx @ requests_of fx'"
  by (simp add: requests_of_def)

lemmas requests_simps = requests_of_Nil requests_of_Cons requests_of_append

lemma timers_simps:
  "timers [] = []"
  "timers (e # fx) = (case e of SetTimeout ms c \<Rightarrow> [c] | _ \<Rightarrow> []) @ timers fx"
  by (simp_all add: timers_def)

lemma settle_no_request: "requests_of (snd (settle t r s)) = []"
  by (cases t) (auto simp add: resume_defs requests_simps split: sum.splits)

lemma settle_idle: "\<not> isAnalyzing (fst (settle t r s))"
  by (cases t) (auto simp add: resume_defs split: sum.splits)

lemma run_fails_throws: "run_fails r \<Longrightarrow> \<exists>e. awaited_data r = Inl e"
  by (cases r) auto

section \<open>Empty input\<close>

text \<open>
  C1. For each of the four kinds, a click while the code input is empty (or holds only
  white space, which \<open>trim\<close> removes) makes no request: the handler shows the
  \<open>noCodeError\<close> text of the current language, starts nothing and leaves the state as
  it was.
\<close>

theorem empty_code_no_request:
  assumes "trim (codeInput s) = []"
  shows "analyze k r s = (s, [Alert (translation (language s) noCodeError)])
         \<and> requests_of (snd (analyze k r s)) = []
         \<and> snd (snd (begin_analysis k s)) = None"
  using assms by (simp add: analyze_def begin_analysis_blank requests_simps)

theorem empty_code_no_request_witness:
  "trim (codeInput initial_dashboard) = []
   \<and> analyze Bugs Network_error initial_dashboard
       = (initial_dashboard, [Alert (translation En noCodeError)])
   \<and> requests_of (snd (analyze Bugs Network_error initial_dashboard)) = []"
proof -
  have e: "trim (codeInput initial_dashboard) = []"
    by (simp add: initial_dashboard_def trim_def)
  show ?thesis
    using e empty_code_no_request [OF e, of Bugs Network_error]
    by (simp add: initial_dashboard_def requests_simps)
qed

section \<open>The security scan\<close>

text \<open>
  C2. With code to analyse, a run of the security scan makes no request: it sets one timer
  of 2000 ms, and the timer's callback stores the fixed findings (score 75 and the two
  issues of the source) as the security result, whatever the code was, opens the panel and
  clears the busy flag.
\<close>

theorem security_scan_is_local:
  assumes "trim (codeInput s) \<noteq> []"
  shows "snd (analyze Security r s) = [SetTimeout 2000 SecurityDone]
       \<and> requests_of (snd (analyze Security r s)) = []
       \<and> fst (analyze Security r s) =
           s\<lparr>results := (results s)(Security \<mapsto> Val security_findings),
             expandedSections := (expandedSections s)(Security \<mapsto> True),
             isAnalyzing := False, activeAnalysis := None\<rparr>
       \<and> get_prop security_findings (ascii ''securityScore'') = Inr (Val (JNum 75))
       \<and> get_prop security_findings (ascii ''issues'') = Inr (Val (JArr
              [security_issue ''high'' ''SQL Injection'' 45 ''Unsanitized user input'',
               security_issue ''medium'' ''XSS Risk'' 78 ''Unescaped output'']))"
  using assms
  by (simp add: analyze_def runSecurityScan_begin_def getCodeToAnalyze_some
      runSecurityScan_timeout_def security_findings_def ascii_def requests_simps)

theorem security_scan_is_local_witness:
  "trim (codeInput pasted) \<noteq> []
   \<and> snd (analyze Security Network_error pasted) = [SetTimeout 2000 SecurityDone]
   \<and> results (fst (analyze Security Network_error pasted)) Security
       = Some (Val security_findings)"
proof -
  have h: "trim (codeInput pasted) \<noteq> []"
    by (simp add: pasted_code ascii_def)
  from security_scan_is_local [OF h, of Network_error] show ?thesis
    using h by simp
qed

section \<open>Failed and successful runs\<close>

text \<open>
  The failures the three fetching handlers catch. When the request is rejected, answered
  with a status outside 2xx or with a body that is not JSON, the handler leaves the result
  store as it was, shows the \<open>analysisError\<close> text (in the language of the click) and
  returns to idle: the busy flag and the active kind are cleared, and the component stays
  mounted.
\<close>

lemma failure_returns_to_idle:
  assumes "t = QualityFetch l \<or> t = BugsFetch l \<or> t = DocsFetch l" and "run_fails r"
  shows "settle t r s = (s\<lparr>isAnalyzing := False, activeAnalysis := None\<rparr>,
                         [Alert (translation l analysisError)])
       \<and> results (fst (settle t r s)) = results s
       \<and> isAnalyzing (fst (settle t r s)) = False
       \<and> activeAnalysis (fst (settle t r s)) = None"
proof -
  from assms(2) obtain e where e: "awaited_data r = Inl e"
    using run_fails_throws by blast
  have "settle t r s = (s\<lparr>isAnalyzing := False, activeAnalysis := None\<rparr>,
                        [Alert (translation l analysisError)])"
    using assms(1) e by (auto simp add: resume_defs)
  then show ?thesis by simp
qed

lemma failure_returns_to_idle_example:
  "run_fails (Response 500 (Parsed JNull))
   \<and> settle (BugsFetch Ur) (Response 500 (Parsed JNull)) (busy Bugs)
      = ((busy Bugs)\<lparr>isAnalyzing := False, activeAnalysis := None\<rparr>,
         [Alert (translation Ur analysisError)])
   \<and> results (fst (settle (BugsFetch Ur) (Response 500 (Parsed JNull)) (busy Bugs)))
      = results (busy Bugs)"
proof -
  have f: "run_fails (Response 500 (Parsed JNull))" by simp
  have t: "BugsFetch Ur = QualityFetch Ur \<or> BugsFetch Ur = BugsFetch Ur
           \<or> BugsFetch Ur = DocsFetch Ur"
    by simp
  from failure_returns_to_idle [OF t f, of "busy Bugs"] f show ?thesis
    by blast
qed

lemma quality_running_eq:
  "quality_running =
     \<lparr>ui = pasted\<lparr>isAnalyzing := True, activeAnalysis := Some Quality\<rparr>,
      pending = [QualityFetch En], reading = [],
      trace = [Fetch (analyzeQuality_request pasted (ascii ''def f(): pass''))]\<rparr>"
  by (simp add: quality_running_def initial_world_def initial_dashboard_def click_def
      textarea_onChange_def analyzeQuality_begin_def getCodeToAnalyze_def trim_def ascii_def
      isWhiteSpace_def pasted_def analyzeQuality_request_def blob_name_def)

text \<open>
  C3 (a failed run leaves the result store untouched, shows an error and returns the
  dashboard to idle; no failure is fatal) holds of the failures above and not of every
  failure: one is not caught. A 2xx answer whose JSON body is \<open>null\<close> passes the
  \<open>try\<close> block of the quality, bugs and documentation handlers, because \<open>data.results\<close>
  is read only in the updater given to \<open>setResults\<close>; the read throws a TypeError when
  React renders, no alert is shown, and the tree is unmounted, so the dashboard does not
  return to idle: after it no button starts anything. Such an answer is neither a status
  outside 2xx nor malformed JSON. \<open>handleSubmit\<close> of the authentication page reads
  \<open>data.success\<close> inside its \<open>try\<close> and shows its error text for the same body.
\<close>

theorem null_body_unmounts:
  "settle (QualityFetch l) (Response 200 (Parsed JNull)) s
     = (s\<lparr>expandedSections := (expandedSections s)(Quality \<mapsto> True), mounted := False,
          isAnalyzing := False, activeAnalysis := None\<rparr>, [RenderError TypeError])
   \<and> settle (BugsFetch l) (Response 200 (Parsed JNull)) s
     = (s\<lparr>expandedSections := (expandedSections s)(Bugs \<mapsto> True), mounted := False,
          isAnalyzing := False, activeAnalysis := None\<rparr>, [RenderError TypeError])
   \<and> settle (DocsFetch l) (Response 200 (Parsed JNull)) s
     = (s\<lparr>expandedSections := (expandedSections s)(Docs \<mapsto> True), mounted := False,
          isAnalyzing := False, activeAnalysis := None\<rparr>, [RenderError TypeError])
   \<and> run_fails (Response 200 (Parsed JNull)) = False
   \<and> mounted (ui quality_running) = True
   \<and> mounted (ui null_answered) = False
   \<and> trace null_answered
       = [Fetch (analyzeQuality_request pasted (ascii ''def f(): pass'')), RenderError TypeError]
   \<and> step (Click k) null_answered = null_answered
   \<and> error (fst (handleSubmit num cb (Response 200 (Parsed JNull)) p))
       = JStr (ascii ''Failed to connect to server. Please try again.'')"
proof -
  have a: "settle (QualityFetch l) (Response 200 (Parsed JNull)) s
     = (s\<lparr>expandedSections := (expandedSections s)(Quality \<mapsto> True), mounted := False,
          isAnalyzing := False, activeAnalysis := None\<rparr>, [RenderError TypeError])"
    by (simp add: resume_defs)
  have b: "settle (BugsFetch l) (Response 200 (Parsed JNull)) s
     = (s\<lparr>expandedSections := (expandedSections s)(Bugs \<mapsto> True), mounted := False,
          isAnalyzing := False, activeAnalysis := None\<rparr>, [RenderError TypeError])"
    by (simp add: resume_defs)
  have c: "settle (DocsFetch l) (Response 200 (Parsed JNull)) s
     = (s\<lparr>expandedSections := (expandedSections s)(Docs \<mapsto> True), mounted := False,
          isAnalyzing := False, activeAnalysis := None\<rparr>, [RenderError TypeError])"
    by (simp add: resume_defs)
  have d: "mounted (ui quality_running) = True"
    by (simp add: quality_running_eq pasted_def initial_dashboard_def)
  have e: "null_answered =
     \<lparr>ui = pasted\<lparr>isAnalyzing := False, activeAnalysis := None,
                  expandedSections := [Quality \<mapsto> True], mounted := False\<rparr>,
      pending = [], reading = [],
      trace = [Fetch (analyzeQuality_request pasted (ascii ''def f(): pass'')),
               RenderError TypeError]\<rparr>"
    by (simp add: null_answered_def quality_running_eq continue_def remove_nth_def resume_defs
        pasted_def initial_dashboard_def)
  have f: "step (Click k) null_answered = null_answered"
    by (simp add: e click_def)
  have g: "error (fst (handleSubmit num cb (Response 200 (Parsed JNull)) p))
       = JStr (ascii ''Failed to connect to server. Please try again.'')"
    by (simp add: handleSubmit_def handleSubmit_try_def Let_def)
  have h: "mounted (ui null_answered) = False"
    by (simp add: e)
  have i: "trace null_answered
       = [Fetch (analyzeQuality_request pasted (ascii ''def f(): pass'')), RenderError TypeError]"
    by (simp add: e)
  from a b c d f g h i show ?thesis by simp
qed

text \<open>
  C4. A successful run of kind K (the \<open>data.results\<close> of the \<open>data\<close> a 2xx JSON answer
  gave, or the fired security timer) replaces K's entry of the result store by the new
  value, which does not depend on the entry's previous value, and leaves the entry of every
  other kind as it was.
\<close>

theorem success_overwrites_own_entry:
  assumes "(t \<noteq> SecurityTimer \<and> awaited_data r = Inr data
              \<and> get_prop data (ascii ''results'') = Inr v)
           \<or> (t = SecurityTimer \<and> v = Val security_findings)"
  shows "results (fst (settle t r s)) = (results s)(task_kind t \<mapsto> v)
       \<and> results (fst (settle t r s)) (task_kind t) = Some v
       \<and> (\<forall>k. k \<noteq> task_kind t \<longrightarrow> results (fst (settle t r s)) k = results s k)"
proof -
  have "results (fst (settle t r s)) = (results s)(task_kind t \<mapsto> v)"
    using assms by (cases t) (auto simp add: resume_defs)
  then show ?thesis by simp
qed

theorem success_overwrites_own_entry_witness:
  "awaited_data (Response 200 (Parsed (JObj [(ascii ''results'', JNum 7)])))
     = Inr (JObj [(ascii ''results'', JNum 7)])
   \<and> get_prop (JObj [(ascii ''results'', JNum 7)]) (ascii ''results'') = Inr (Val (JNum 7))
   \<and> results (fst (settle (QualityFetch En)
         (Response 200 (Parsed (JObj [(ascii ''results'', JNum 7)]))) (busy Quality))) Quality
       = Some (Val (JNum 7))
   \<and> results (fst (settle (BugsFetch En)
         (Response 200 (Parsed (JObj [(ascii ''results'', JNum 7)]))) (busy Bugs))) Quality
       = results (busy Bugs) Quality"
proof -
  let ?d = "JObj [(ascii ''results'', JNum 7)]"
  let ?r = "Response 200 (Parsed ?d)"
  have f: "awaited_data ?r = Inr ?d"
    by simp
  have g: "get_prop ?d (ascii ''results'') = Inr (Val (JNum 7))"
    by (simp add: ascii_def)
  have q: "(QualityFetch En \<noteq> SecurityTimer \<and> awaited_data ?r = Inr ?d
              \<and> get_prop ?d (ascii ''results'') = Inr (Val (JNum 7)))
           \<or> (QualityFetch En = SecurityTimer \<and> Val (JNum 7) = Val security_findings)"
    using f g by simp
  have b: "(BugsFetch En \<noteq> SecurityTimer \<and> awaited_data ?r = Inr ?d
              \<and> get_prop ?d (ascii ''results'') = Inr (Val (JNum 7)))
           \<or> (BugsFetch En = SecurityTimer \<and> Val (JNum 7) = Val security_findings)"
    using f g by simp
  from success_overwrites_own_entry [OF q, of "busy Quality"]
       success_overwrites_own_entry [OF b, of "busy Bugs"] f g
  show ?thesis by simp
qed

section \<open>One analysis at a time\<close>

lemma begin_analysis_cases:
  "begin_analysis k s = (s', fx, t) \<Longrightarrow>
     (t = None \<and> s' = s) \<or>
     (\<exists>x. t = Some x \<and> task_kind x = k \<and> isAnalyzing s' \<and> activeAnalysis s' = Some k)"
  by (cases k) (auto simp add: begin_defs split: option.splits)

lemma serialized_click: "serialized w \<Longrightarrow> serialized (click k w)"
proof -
  assume inv: "serialized w"
  show ?thesis
  proof (cases "mounted (ui w) \<and> \<not> isAnalyzing (ui w)")
    case False
    then show ?thesis using inv by (auto simp add: click_def)
  next
    case True
    then have e: "pending w = []" using inv by (simp add: serialized_def)
    obtain s' fx t where b: "begin_analysis k (ui w) = (s', fx, t)"
      by (cases "begin_analysis k (ui w)") auto
    from begin_analysis_cases [OF b] True e b show ?thesis
      by (auto simp add: click_def serialized_def)
  qed
qed

lemma serialized_continue:
  "serialized w \<Longrightarrow> i < length (pending w) \<Longrightarrow> serialized (continue i r w)"
proof -
  assume inv: "serialized w" and i: "i < length (pending w)"
  then have "i = 0" and l: "length (pending w) = 1" by (auto simp add: serialized_def)
  then have "remove_nth i (pending w) = []" by (simp add: remove_nth_def)
  moreover have "\<not> isAnalyzing (fst (settle (pending w ! i) r (ui w)))" by (rule settle_idle)
  ultimately show ?thesis
    by (cases "settle (pending w ! i) r (ui w)") (simp add: continue_def serialized_def)
qed

lemma serialized_step: "serialized w \<Longrightarrow> serialized (step e w)"
proof (cases e)
  case (Click k)
  assume "serialized w" then show ?thesis using Click by (simp add: serialized_click)
next
  case (Respond i r)
  assume "serialized w" then show ?thesis using Respond by (simp add: serialized_continue)
next
  case (Fire i)
  assume "serialized w" then show ?thesis using Fire by (simp add: serialized_continue)
next
  case (ChooseFile fs)
  assume "serialized w" then show ?thesis using ChooseFile
    by (auto simp add: serialized_def handleFileUpload_def split: list.splits)
next
  case (Loaded i)
  assume "serialized w" then show ?thesis using Loaded
    by (auto simp add: serialized_def reader_onload_def)
next
  case (Edit v)
  assume "serialized w" then show ?thesis using Edit
    by (auto simp add: serialized_def textarea_onChange_def)
next
  case (SetLanguage l)
  assume "serialized w" then show ?thesis using SetLanguage
    by (auto simp add: serialized_def setLanguage_def)
next
  case (Toggle k)
  assume "serialized w" then show ?thesis using Toggle
    by (auto simp add: serialized_def onToggle_def)
qed

lemma reachable_serialized: "reachable w \<Longrightarrow> serialized w"
proof (induction rule: reachable.induct)
  case start
  show ?case by (simp add: serialized_def initial_world_def initial_dashboard_def)
next
  case (after w e)
  then show ?case by (simp add: serialized_step)
qed

text \<open>
  C5. In every state the dashboard can reach, at most one analysis is under way (a request
  not yet answered or the security timer not yet fired), and the busy flag is set exactly
  then. While one is under way the four buttons are disabled, so a click on any of them
  starts nothing and changes nothing; the active kind is the kind under way; and once it
  resolves, whatever the answer, none is under way and the busy flag is clear.
\<close>

theorem one_analysis_at_a_time:
  assumes "reachable w"
  shows "in_flight w \<le> 1
       \<and> (isAnalyzing (ui w) \<longleftrightarrow> in_flight w = 1)
       \<and> (in_flight w = 1 \<longrightarrow>
            (\<forall>k. step (Click k) w = w)
            \<and> activeAnalysis (ui w) = Some (task_kind (pending w ! 0))
            \<and> (\<forall>r. in_flight (continue 0 r w) = 0 \<and> \<not> isAnalyzing (ui (continue 0 r w))))"
proof -
  from assms have inv: "serialized w" by (rule reachable_serialized)
  then have a: "in_flight w \<le> 1" and b: "isAnalyzing (ui w) \<longleftrightarrow> in_flight w = 1"
    by (cases "pending w"; simp add: serialized_def in_flight_def)+
  have c: "in_flight w = 1 \<longrightarrow>
            (\<forall>k. step (Click k) w = w)
            \<and> activeAnalysis (ui w) = Some (task_kind (pending w ! 0))
            \<and> (\<forall>r. in_flight (continue 0 r w) = 0 \<and> \<not> isAnalyzing (ui (continue 0 r w)))"
  proof
    assume one: "in_flight w = 1"
    then obtain t where t: "pending w = [t]"
      by (cases "pending w") (auto simp add: in_flight_def)
    have "\<forall>k. step (Click k) w = w" using b one by (simp add: click_def)
    moreover have "activeAnalysis (ui w) = Some (task_kind (pending w ! 0))"
      using inv t by (simp add: serialized_def)
    moreover have "\<forall>r. in_flight (continue 0 r w) = 0 \<and> \<not> isAnalyzing (ui (continue 0 r w))"
    proof
      fix r
      have "serialized (continue 0 r w)" using inv t by (simp add: serialized_continue)
      moreover have "pending (continue 0 r w) = []"
        using t by (cases "settle t r (ui w)") (simp add: continue_def remove_nth_def)
      ultimately show "in_flight (continue 0 r w) = 0 \<and> \<not> isAnalyzing (ui (continue 0 r w))"
        by (simp add: serialized_def in_flight_def)
    qed
    ultimately show "(\<forall>k. step (Click k) w = w)
            \<and> activeAnalysis (ui w) = Some (task_kind (pending w ! 0))
            \<and> (\<forall>r. in_flight (continue 0 r w) = 0 \<and> \<not> isAnalyzing (ui (continue 0 r w)))"
      by blast
  qed
  from a b c show ?thesis by blast
qed

lemma quality_running_pending: "pending quality_running = [QualityFetch En]"
  by (simp add: quality_running_def initial_world_def initial_dashboard_def click_def
      textarea_onChange_def analyzeQuality_begin_def getCodeToAnalyze_def trim_def ascii_def
      isWhiteSpace_def)

theorem one_analysis_at_a_time_witness:
  "reachable quality_running \<and> in_flight quality_running = 1
   \<and> step (Click Bugs) quality_running = quality_running
   \<and> activeAnalysis (ui quality_running) = Some Quality"
proof -
  have r: "reachable quality_running"
    unfolding quality_running_def by (intro reachable.after reachable.start)
  have l: "in_flight quality_running = 1"
    by (simp add: in_flight_def quality_running_pending)
  from one_analysis_at_a_time [OF r] r l show ?thesis
    by (simp add: quality_running_pending)
qed

section \<open>The name of the code blob\<close>

lemma analyze_file_names:
  assumes "trim (codeInput s) \<noteq> []" and "k \<noteq> Security"
  shows "file_names_sent (snd (analyze k r s)) = [Some (blob_name s)]"
proof -
  obtain t q where b: "begin_analysis k s = (s\<lparr>isAnalyzing := True, activeAnalysis := Some k\<rparr>, [Fetch q], Some t)"
    and q: "file_part q = Some (Blob_part (trim (codeInput s)) (ascii ''text/plain'') (blob_name s))"
    using assms by (cases k) (simp_all add: begin_defs getCodeToAnalyze_some request_defs file_part_def)
  obtain s' fx where st: "settle t r (s\<lparr>isAnalyzing := True, activeAnalysis := Some k\<rparr>) = (s', fx)"
    by (cases "settle t r (s\<lparr>isAnalyzing := True, activeAnalysis := Some k\<rparr>)") auto
  then have "requests_of fx = []" using settle_no_request [of t r "s\<lparr>isAnalyzing := True, activeAnalysis := Some k\<rparr>"] by simp
  then show ?thesis using b q st
    by (simp add: analyze_def file_names_sent_def requests_simps)
qed

text \<open>
  C9. A run of the quality, bugs or documentation analysis with code to analyse sends one
  request, whose \<open>file\<close> part is named \<open>code.py\<close> when no file has been uploaded and
  carries the name of the uploaded file (a file chosen in the browser has a non-empty
  name) when one has.
\<close>

theorem blob_file_name:
  assumes "trim (codeInput s) \<noteq> []" and "k \<noteq> Security"
  shows "(uploadedFile s = None \<longrightarrow>
            file_names_sent (snd (analyze k r s)) = [Some (ascii ''code.py'')])
       \<and> (\<forall>f. uploadedFile s = Some f \<and> file_name f \<noteq> [] \<longrightarrow>
            file_names_sent (snd (analyze k r s)) = [Some (file_name f)])"
  using analyze_file_names [OF assms, of r] by (simp add: blob_name_def)

theorem blob_file_name_witness:
  "trim (codeInput pasted) \<noteq> [] \<and> Quality \<noteq> Security \<and> uploadedFile pasted = None
   \<and> file_names_sent (snd (analyze Quality Network_error pasted)) = [Some (ascii ''code.py'')]
   \<and> trim (codeInput uploaded) \<noteq> [] \<and> uploadedFile uploaded = Some main_js
   \<and> file_name main_js \<noteq> []
   \<and> file_names_sent (snd (analyze Docs Network_error uploaded)) = [Some (ascii ''main.js'')]"
proof -
  have a: "trim (codeInput pasted) \<noteq> []" by (simp add: pasted_code ascii_def)
  have b: "trim (codeInput uploaded) \<noteq> []" using a by (simp add: uploaded_def)
  have c: "uploadedFile pasted = None" by (simp add: pasted_def initial_dashboard_def)
  have d: "uploadedFile uploaded = Some main_js" by (simp add: uploaded_def)
  have e: "file_name main_js = ascii ''main.js''" by (simp add: main_js_def)
  have f: "file_name main_js \<noteq> []" by (simp add: e ascii_def)
  have k: "Quality \<noteq> Security" "Docs \<noteq> Security" by simp_all
  from blob_file_name [OF a k(1), of Network_error] blob_file_name [OF b k(2), of Network_error]
    a b c d e f
  show ?thesis by simp
qed

section \<open>The issue lists of the result views\<close>

lemma map_indexed_rows:
  "map_indexed f i xs = Inr rows \<Longrightarrow>
     length rows = length xs \<and> (\<forall>j < length xs. f (i + j) (xs ! j) = Inr (rows ! j))"
proof (induction xs arbitrary: i rows)
  case Nil
  then show ?case by simp
next
  case (Cons x xs)
  from Cons.prems obtain y ys where y: "f i x = Inr y" and ys: "map_indexed f (Suc i) xs = Inr ys"
    and rows: "rows = y # ys"
    by (auto split: sum.splits)
  from Cons.IH [OF ys] have l: "length ys = length xs"
    and r: "\<forall>j < length xs. f (Suc i + j) (xs ! j) = Inr (ys ! j)" by simp_all
  show ?case
  proof (intro conjI allI impI)
    show "length rows = length (x # xs)" using rows l by simp
  next
    fix j assume "j < length (x # xs)"
    then show "f (i + j) ((x # xs) ! j) = Inr (rows ! j)"
      using y r rows by (cases j) simp_all
  qed
qed

lemma map_indexed_succeeds:
  "(\<forall>x \<in> set xs. \<forall>j. \<exists>y. f j x = Inr y) \<Longrightarrow> \<exists>rows. map_indexed f i xs = Inr rows"
proof (induction xs arbitrary: i)
  case Nil
  then show ?case by simp
next
  case (Cons x xs)
  then obtain y where "f i x = Inr y" by fastforce
  moreover from Cons obtain ys where "map_indexed f (Suc i) xs = Inr ys" by fastforce
  ultimately show ?case by simp
qed

lemma entry_succeeds:
  "x \<noteq> JNull \<Longrightarrow> \<exists>y. quality_issue j x = Inr y"
  "x \<noteq> JNull \<Longrightarrow> \<exists>y. bug_entry j x = Inr y"
  "x \<noteq> JNull \<Longrightarrow> \<exists>y. security_entry j x = Inr y"
  by (cases x; simp add: quality_issue_def bug_entry_def security_entry_def)+

lemma issue_list_take:
  assumes "JNull \<notin> set xs" and "\<And>x j. x \<noteq> JNull \<Longrightarrow> \<exists>y. f j x = Inr y"
  shows "\<exists>rows. issue_list positive (\<lambda>ys. map_indexed f 0 (take n ys)) (Val (JArr xs)) = Inr rows
           \<and> length rows = min n (length xs)
           \<and> (\<forall>j < length rows. f j (xs ! j) = Inr (rows ! j))"
proof (cases "xs = []")
  case True
  then show ?thesis by (simp add: issue_list_def)
next
  case False
  have "\<forall>x \<in> set (take n xs). \<forall>j. \<exists>y. f j x = Inr y"
    using assms by (metis in_set_takeD)
  from map_indexed_succeeds [OF this] obtain rows where
    rows: "map_indexed f 0 (take n xs) = Inr rows" by blast
  from map_indexed_rows [OF rows] have "length rows = min n (length xs)"
    and "\<forall>j < length rows. f j (xs ! j) = Inr (rows ! j)" by (simp_all add: min.commute)
  then show ?thesis using rows False by (simp add: issue_list_def)
qed

lemma issue_list_all:
  assumes "JNull \<notin> set xs" and "\<And>x j. x \<noteq> JNull \<Longrightarrow> \<exists>y. f j x = Inr y"
  shows "\<exists>rows. issue_list positive (\<lambda>ys. map_indexed f 0 ys) (Val (JArr xs)) = Inr rows
           \<and> length rows = length xs
           \<and> (\<forall>j < length rows. f j (xs ! j) = Inr (rows ! j))"
proof (cases "xs = []")
  case True
  then show ?thesis by (simp add: issue_list_def)
next
  case False
  have "\<forall>x \<in> set xs. \<forall>j. \<exists>y. f j x = Inr y"
    using assms by metis
  from map_indexed_succeeds [OF this] obtain rows where
    rows: "map_indexed f 0 xs = Inr rows" by blast
  from map_indexed_rows [OF rows] have "length rows = length xs"
    and "\<forall>j < length rows. f j (xs ! j) = Inr (rows ! j)" by simp_all
  then show ?thesis using rows False by (simp add: issue_list_def)
qed

text \<open>
  C10. For a list of entries from the backend (none of them \<open>null\<close>), the quality view
  and the bug view render the first \<open>min 10 n\<close> of its \<open>n\<close> entries, row \<open>j\<close> from
  entry \<open>j\<close>: in the order of the backend, none left out, none reordered. The security
  view renders every entry of its list the same way.
\<close>

theorem issue_lists_rendered:
  assumes "JNull \<notin> set xs"
  shows "(get_prop res (ascii ''issues'') = Inr (Val (JArr xs)) \<longrightarrow>
            (\<exists>rows. QualityResults positive res = Inr rows
                \<and> length rows = min 10 (length xs)
                \<and> (\<forall>j < length rows. quality_issue j (xs ! j) = Inr (rows ! j))))
       \<and> (get_prop res (ascii ''bugs'') = Inr (Val (JArr xs)) \<longrightarrow>
            (\<exists>rows. BugResults positive res = Inr rows
                \<and> length rows = min 10 (length xs)
                \<and> (\<forall>j < length rows. bug_entry j (xs ! j) = Inr (rows ! j))))
       \<and> (get_prop res (ascii ''issues'') = Inr (Val (JArr xs)) \<longrightarrow>
            (\<exists>rows. SecurityResults positive res = Inr rows
                \<and> length rows = length xs
                \<and> (\<forall>j < length rows. security_entry j (xs ! j) = Inr (rows ! j))))"
proof (intro conjI impI)
  assume "get_prop res (ascii ''issues'') = Inr (Val (JArr xs))"
  then show "\<exists>rows. QualityResults positive res = Inr rows
                \<and> length rows = min 10 (length xs)
                \<and> (\<forall>j < length rows. quality_issue j (xs ! j) = Inr (rows ! j))"
    using issue_list_take [where f = quality_issue and positive = positive and n = 10, OF assms entry_succeeds(1)]
    by (simp add: QualityResults_def)
next
  assume "get_prop res (ascii ''bugs'') = Inr (Val (JArr xs))"
  then show "\<exists>rows. BugResults positive res = Inr rows
                \<and> length rows = min 10 (length xs)
                \<and> (\<forall>j < length rows. bug_entry j (xs ! j) = Inr (rows ! j))"
    using issue_list_take [where f = bug_entry and positive = positive and n = 10, OF assms entry_succeeds(2)]
    by (simp add: BugResults_def)
next
  assume "get_prop res (ascii ''issues'') = Inr (Val (JArr xs))"
  then show "\<exists>rows. SecurityResults positive res = Inr rows
                \<and> length rows = length xs
                \<and> (\<forall>j < length rows. security_entry j (xs ! j) = Inr (rows ! j))"
    using issue_list_all [where f = security_entry and positive = positive, OF assms entry_succeeds(3)]
    by (simp add: SecurityResults_def)
qed

theorem issue_lists_rendered_witness:
  "JNull \<notin> set twelve
   \<and> get_prop twelve_found (ascii ''issues'') = Inr (Val (JArr twelve))
   \<and> get_prop twelve_found (ascii ''bugs'') = Inr (Val (JArr twelve))
   \<and> (\<exists>rows. QualityResults (\<lambda>v. False) twelve_found = Inr rows \<and> length rows = 10)
   \<and> (\<exists>rows. BugResults (\<lambda>v. False) twelve_found = Inr rows \<and> length rows = 10)
   \<and> (\<exists>rows. SecurityResults (\<lambda>v. False) twelve_found = Inr rows \<and> length rows = 12)"
proof -
  have n: "JNull \<notin> set twelve" by (auto simp add: twelve_def)
  have l: "length twelve = 12" by (simp add: twelve_def)
  have i: "get_prop twelve_found (ascii ''issues'') = Inr (Val (JArr twelve))"
    by (simp add: twelve_found_def ascii_def)
  have b: "get_prop twelve_found (ascii ''bugs'') = Inr (Val (JArr twelve))"
    by (simp add: twelve_found_def ascii_def)
  from issue_lists_rendered [OF n, of twelve_found "\<lambda>v. False"] n i b l
  show ?thesis by auto
qed

section \<open>Signing in\<close>

lemma handleSubmit_success:
  assumes "ok r" and "r = Response st (Parsed data)"
    and "truthy (or_undefined (get_prop data (ascii ''success'')))"
  shows "handleSubmit num True r p =
     (p\<lparr>loading := False, error := JStr [],
        success := (if isLogin p then ascii ''Login successful!''
                    else ascii ''Account created successfully!'')\<rparr>,
      [Fetch (handleSubmit_request p),
       OnAuthSuccess \<lparr>username = email (formData p),
                      role = or_else (or_undefined (get_prop data (ascii ''role'')))
                               (JStr (ascii ''user''))\<rparr>,
       SetTimeout 1000 (NavigateTo (ascii ''/dashboard''))])"
proof -
  from assms(3) obtain flag where "get_prop data (ascii ''success'') = Inr flag" "truthy flag"
    by (cases "get_prop data (ascii ''success'')") (auto simp add: or_undefined_def)
  then show ?thesis using assms(1,2)
    by (simp add: handleSubmit_def handleSubmit_try_def Let_def)
qed

lemma handleSubmit_failure:
  assumes "r = Response st (Parsed data)"
    and "\<not> (ok r \<and> truthy (or_undefined (get_prop data (ascii ''success''))))"
    and "failure_message num data = Inr m"
  shows "handleSubmit num cb r p =
     (p\<lparr>loading := False, error := m, success := []\<rparr>, [Fetch (handleSubmit_request p)])"
proof -
  from assms(3) have "data \<noteq> JNull" by (auto simp add: failure_message_def)
  then obtain flag where f: "get_prop data (ascii ''success'') = Inr flag"
    by (cases data) auto
  then show ?thesis using assms
    by (auto simp add: handleSubmit_def handleSubmit_try_def Let_def or_undefined_def)
qed

text \<open>
  C6. A login submit answered with a 2xx status and a payload whose \<open>success\<close> is truthy
  sends one request to \<open>/api/login\<close> with the credentials, makes the application's user
  \<open>{username: email, role: data.role || 'user'}\<close>, and the timer it sets navigates to
  \<open>/dashboard\<close>. On any other answer with a payload, the user and the route stay as they
  were and the page shows the backend's \<open>errors\<close> list joined by \<open>', '\<close> when the payload
  has one, otherwise its \<open>error\<close> message when it has one, and a fixed text when it has
  neither. In the scenario of the
  claim (\<open>a@b.com\<close>, \<open>x\<close>, \<open>{success: true, role: "user"}\<close>) the user becomes
  \<open>{username: "a@b.com", role: "user"}\<close>.
\<close>

theorem login_outcome:
  assumes "isLogin p" and "r = Response st (Parsed data)"
  shows "(ok r \<and> truthy (or_undefined (get_prop data (ascii ''success''))) \<longrightarrow>
            user (fst (submit_on_auth_route num r (a, p)))
              = Some \<lparr>username = email (formData p),
                      role = or_else (or_undefined (get_prop data (ascii ''role'')))
                               (JStr (ascii ''user''))\<rparr>
            \<and> route (after_timers (snd (snd (submit_on_auth_route num r (a, p))))
                       (fst (submit_on_auth_route num r (a, p)))) = ascii ''/dashboard''
            \<and> requests_of (snd (snd (submit_on_auth_route num r (a, p))))
                = [\<lparr>url = ascii ''http://localhost:5000/api/login'', http_method = POST,
                    body = Json_text (JObj [(ascii ''username'', JStr (email (formData p))),
                                            (ascii ''password'', JStr (password (formData p)))])\<rparr>])
       \<and> (\<not> (ok r \<and> truthy (or_undefined (get_prop data (ascii ''success'')))) \<longrightarrow>
            (\<forall>xs. get_prop data (ascii ''errors'') = Inr (Val (JArr xs)) \<longrightarrow>
               error (fst (snd (submit_on_auth_route num r (a, p)))) = JStr (join num (ascii '', '') xs)
               \<and> fst (submit_on_auth_route num r (a, p)) = a
               \<and> timers (snd (snd (submit_on_auth_route num r (a, p)))) = [])
          \<and> (\<forall>errs m. get_prop data (ascii ''errors'') = Inr errs \<and> \<not> truthy errs
                 \<and> get_prop data (ascii ''error'') = Inr (Val m) \<and> truthy_json m \<longrightarrow>
               error (fst (snd (submit_on_auth_route num r (a, p)))) = m
               \<and> fst (submit_on_auth_route num r (a, p)) = a
               \<and> timers (snd (snd (submit_on_auth_route num r (a, p)))) = [])
          \<and> (\<forall>errs err. get_prop data (ascii ''errors'') = Inr errs \<and> \<not> truthy errs
                 \<and> get_prop data (ascii ''error'') = Inr err \<and> \<not> truthy err \<longrightarrow>
               error (fst (snd (submit_on_auth_route num r (a, p))))
                 = JStr (ascii ''An error occurred. Please try again.'')))"
proof (intro conjI impI allI)
  assume s: "ok r \<and> truthy (or_undefined (get_prop data (ascii ''success'')))"
  note h = handleSubmit_success [OF conjunct1 [OF s] assms(2) conjunct2 [OF s], of num p]
  show "user (fst (submit_on_auth_route num r (a, p)))
          = Some \<lparr>username = email (formData p),
                  role = or_else (or_undefined (get_prop data (ascii ''role'')))
                           (JStr (ascii ''user''))\<rparr>"
    by (simp add: submit_on_auth_route_def h app_effect_def handleAuthSuccess_def)
  show "route (after_timers (snd (snd (submit_on_auth_route num r (a, p))))
                       (fst (submit_on_auth_route num r (a, p)))) = ascii ''/dashboard''"
    by (simp add: submit_on_auth_route_def h after_timers_def timers_simps run_callback_def)
  show "requests_of (snd (snd (submit_on_auth_route num r (a, p))))
          = [\<lparr>url = ascii ''http://localhost:5000/api/login'', http_method = POST,
              body = Json_text (JObj [(ascii ''username'', JStr (email (formData p))),
                                      (ascii ''password'', JStr (password (formData p)))])\<rparr>]"
    using assms(1)
    by (simp add: submit_on_auth_route_def h requests_of_Cons requests_of_def
        handleSubmit_request_def API_BASE_URL_def ascii_def)
next
  fix xs
  assume f: "\<not> (ok r \<and> truthy (or_undefined (get_prop data (ascii ''success''))))"
    and e: "get_prop data (ascii ''errors'') = Inr (Val (JArr xs))"
  have m: "failure_message num data = Inr (JStr (join num (ascii '', '') xs))"
    using e by (simp add: failure_message_def)
  note h = handleSubmit_failure [OF assms(2) f m, of True p]
  show "error (fst (snd (submit_on_auth_route num r (a, p)))) = JStr (join num (ascii '', '') xs)"
    by (simp add: submit_on_auth_route_def h)
  show "fst (submit_on_auth_route num r (a, p)) = a"
    by (simp add: submit_on_auth_route_def h app_effect_def)
  show "timers (snd (snd (submit_on_auth_route num r (a, p)))) = []"
    by (simp add: submit_on_auth_route_def h timers_simps)
next
  fix errs m
  assume f: "\<not> (ok r \<and> truthy (or_undefined (get_prop data (ascii ''success''))))"
    and e: "get_prop data (ascii ''errors'') = Inr errs \<and> \<not> truthy errs
                 \<and> get_prop data (ascii ''error'') = Inr (Val m) \<and> truthy_json m"
  have m: "failure_message num data = Inr m"
    using e by (simp add: failure_message_def or_else_def)
  note h = handleSubmit_failure [OF assms(2) f m, of True p]
  show "error (fst (snd (submit_on_auth_route num r (a, p)))) = m"
    by (simp add: submit_on_auth_route_def h)
  show "fst (submit_on_auth_route num r (a, p)) = a"
    by (simp add: submit_on_auth_route_def h app_effect_def)
  show "timers (snd (snd (submit_on_auth_route num r (a, p)))) = []"
    by (simp add: submit_on_auth_route_def h timers_simps)
next
  fix errs err
  assume f: "\<not> (ok r \<and> truthy (or_undefined (get_prop data (ascii ''success''))))"
    and e: "get_prop data (ascii ''errors'') = Inr errs \<and> \<not> truthy errs
                 \<and> get_prop data (ascii ''error'') = Inr err \<and> \<not> truthy err"
  have m: "failure_message num data = Inr (JStr (ascii ''An error occurred. Please try again.''))"
    using e by (cases err) (simp_all add: failure_message_def or_else_def)
  note h = handleSubmit_failure [OF assms(2) f m, of True p]
  show "error (fst (snd (submit_on_auth_route num r (a, p))))
          = JStr (ascii ''An error occurred. Please try again.'')"
    by (simp add: submit_on_auth_route_def h)
qed

theorem login_outcome_witness:
  "isLogin login_form \<and> ok login_accepted
   \<and> user (fst (submit_on_auth_route (\<lambda>q. []) login_accepted (signed_out, login_form)))
       = Some \<lparr>username = ascii ''a@b.com'', role = JStr (ascii ''user'')\<rparr>
   \<and> route (after_timers (snd (snd (submit_on_auth_route (\<lambda>q. []) login_accepted (signed_out, login_form))))
               (fst (submit_on_auth_route (\<lambda>q. []) login_accepted (signed_out, login_form))))
       = ascii ''/dashboard''
   \<and> \<not> ok login_refused
   \<and> error (fst (snd (submit_on_auth_route (\<lambda>q. []) login_refused (signed_out, login_form))))
       = JStr (ascii ''Invalid username, Password too short'')
   \<and> fst (submit_on_auth_route (\<lambda>q. []) login_refused (signed_out, login_form)) = signed_out"
proof -
  let ?ok = "JObj [(ascii ''success'', JBool True), (ascii ''role'', JStr (ascii ''user''))]"
  let ?no = "JObj [(ascii ''errors'',
        JArr [JStr (ascii ''Invalid username''), JStr (ascii ''Password too short'')])]"
  have l: "isLogin login_form" by (simp add: login_form_def)
  have a: "login_accepted = Response 200 (Parsed ?ok)" by (simp add: login_accepted_def)
  have b: "login_refused = Response 400 (Parsed ?no)" by (simp add: login_refused_def)
  have oa: "ok login_accepted" by (simp add: a)
  have ob: "\<not> ok login_refused" by (simp add: b)
  have s: "truthy (or_undefined (get_prop ?ok (ascii ''success'')))"
    by (simp add: or_undefined_def ascii_def)
  have ro: "or_else (or_undefined (get_prop ?ok (ascii ''role''))) (JStr (ascii ''user''))
             = JStr (ascii ''user'')"
    by (simp add: or_undefined_def or_else_def ascii_def)
  have e: "get_prop ?no (ascii ''errors'')
            = Inr (Val (JArr [JStr (ascii ''Invalid username''), JStr (ascii ''Password too short'')]))"
    by (simp add: ascii_def)
  have j: "join (\<lambda>q. []) (ascii '', '')
             [JStr (ascii ''Invalid username''), JStr (ascii ''Password too short'')]
           = ascii ''Invalid username, Password too short''"
    by (simp add: join_def ascii_def)
  have em: "email (formData login_form) = ascii ''a@b.com''" by (simp add: login_form_def)
  from login_outcome [OF l a, of "\<lambda>q. []" signed_out]
       login_outcome [OF l b, of "\<lambda>q. []" signed_out]
       l oa ob s ro e j em
  show ?thesis by simp
qed

section \<open>Validation of the input\<close>

lemma show_report_requests: "requests_of (fst (snd (show_report num payload p))) = []"
  by (auto simp add: show_report_def Let_def requests_simps split: sum.splits)

lemma upload_try_requests: "requests_of (fst (snd (upload_try num r p))) = []"
  using show_report_requests
  by (auto simp add: upload_try_def requests_simps
      split: response.splits response_body.splits sum.splits)

lemma upload_submit_requests:
  "requests_of (snd (upload_submit num r p)) =
     (case files p of
        [] \<Rightarrow> []
      | f # rest \<Rightarrow> if file_size f > maxSize then [] else [analyze_request f])"
proof (cases "files p")
  case Nil
  then show ?thesis by (simp add: upload_submit_def requests_simps)
next
  case (Cons f rest)
  obtain p' fx th where t: "upload_try num r p = (p', fx, th)"
    by (cases "upload_try num r p") auto
  with upload_try_requests [of num r p] have "requests_of fx = []" by simp
  then show ?thesis using Cons t
    by (cases th) (simp_all add: upload_submit_def requests_simps)
qed

text \<open>
  C7, as the claim states it, fails on the static page: its upload form checks the size of
  the selected file itself. A file of 10 MB and one byte is refused with a message and
  nothing is sent.
\<close>

theorem upload_rejects_large_file:
  "file_size big_file = 10 * 1024 * 1024 + 1
   \<and> upload_submit (\<lambda>q. []) (Response 200 (Parsed report_payload))
         (fresh_page\<lparr>files := [big_file]\<rparr>)
       = (fresh_page\<lparr>files := [big_file]\<rparr>,
          [HideError, ShowError (ascii ''File size too large. Maximum 10MB allowed.'')])
   \<and> requests_of (snd (upload_submit (\<lambda>q. []) (Response 200 (Parsed report_payload))
         (fresh_page\<lparr>files := [big_file]\<rparr>))) = []"
  by (simp add: upload_submit_def fresh_page_def big_file_def maxSize_def requests_simps)

text \<open>
  C7, amended. The dashboard's upload and text handlers validate nothing: whatever file is
  chosen becomes the uploaded file and is read, and the text read or typed becomes the code
  input unchanged. The upload form of the static page validates before it sends: a file of
  at most 10 MB is sent to \<open>/analyze\<close> as it is, a larger one is refused with a message,
  and so is a submit with no file selected; in both cases nothing is sent.
\<close>

theorem input_validation:
  "handleFileUpload (f # rest) s = (s\<lparr>uploadedFile := Some f\<rparr>, [ReadAsText f])
   \<and> codeInput (reader_onload text s) = text
   \<and> codeInput (textarea_onChange text s) = text
   \<and> (files p = f # rest \<and> file_size f \<le> 10 * 1024 * 1024 \<longrightarrow>
        requests_of (snd (upload_submit num r p)) = [analyze_request f])
   \<and> (files p = f # rest \<and> file_size f > 10 * 1024 * 1024 \<longrightarrow>
        upload_submit num r p =
          (p, [HideError, ShowError (ascii ''File size too large. Maximum 10MB allowed.'')]))
   \<and> (files p = [] \<longrightarrow>
        upload_submit num r p = (p, [HideError, ShowError (ascii ''Please select a file first.'')]))"
proof -
  have "files p = f # rest \<and> file_size f \<le> 10 * 1024 * 1024 \<longrightarrow>
        requests_of (snd (upload_submit num r p)) = [analyze_request f]"
    by (simp add: upload_submit_requests maxSize_def)
  moreover have "files p = f # rest \<and> file_size f > 10 * 1024 * 1024 \<longrightarrow>
        upload_submit num r p =
          (p, [HideError, ShowError (ascii ''File size too large. Maximum 10MB allowed.'')])"
    by (simp add: upload_submit_def maxSize_def)
  moreover have "files p = [] \<longrightarrow>
        upload_submit num r p = (p, [HideError, ShowError (ascii ''Please select a file first.'')])"
    by (simp add: upload_submit_def)
  ultimately show ?thesis
    by (simp add: handleFileUpload_def reader_onload_def textarea_onChange_def)
qed

theorem input_validation_witness:
  "files fresh_page = main_js # [] \<and> file_size main_js \<le> 10 * 1024 * 1024
   \<and> requests_of (snd (upload_submit (\<lambda>q. []) Network_error fresh_page)) = [analyze_request main_js]
   \<and> files (fresh_page\<lparr>files := [big_file]\<rparr>) = big_file # []
   \<and> file_size big_file > 10 * 1024 * 1024
   \<and> requests_of (snd (upload_submit (\<lambda>q. []) Network_error (fresh_page\<lparr>files := [big_file]\<rparr>))) = []
   \<and> handleFileUpload (big_file # []) initial_dashboard
       = (initial_dashboard\<lparr>uploadedFile := Some big_file\<rparr>, [ReadAsText big_file])"
proof -
  have a: "files fresh_page = main_js # []" by (simp add: fresh_page_def)
  have b: "file_size main_js \<le> 10 * 1024 * 1024" by (simp add: main_js_def)
  have c: "files (fresh_page\<lparr>files := [big_file]\<rparr>) = big_file # []" by simp
  have d: "file_size big_file > 10 * 1024 * 1024" by (simp add: big_file_def)
  from input_validation [of main_js "[]" initial_dashboard "[]" fresh_page "\<lambda>q. []" Network_error]
       input_validation [of big_file "[]" initial_dashboard "[]" "fresh_page\<lparr>files := [big_file]\<rparr>" "\<lambda>q. []" Network_error]
       a b c d
  show ?thesis by (simp add: requests_simps)
qed

section \<open>Requests per user action\<close>

lemma begin_analysis_requests: "length (requests_of (fst (snd (begin_analysis k s)))) \<le> 1"
  by (cases k) (auto simp add: begin_defs requests_simps split: option.splits)

lemma analyze_requests: "length (requests_of (snd (analyze k r s))) \<le> 1"
proof -
  obtain s' fx t where b: "begin_analysis k s = (s', fx, t)"
    by (cases "begin_analysis k s") auto
  with begin_analysis_requests [of k s] have l: "length (requests_of fx) \<le> 1" by simp
  show ?thesis
  proof (cases t)
    case None
    then show ?thesis using b l by (simp add: analyze_def)
  next
    case (Some x)
    then show ?thesis using b l settle_no_request [of x r s']
      by (cases "settle x r s'") (simp add: analyze_def requests_simps)
  qed
qed

lemma handleSubmit_requests:
  "requests_of (snd (handleSubmit num cb r p)) = [handleSubmit_request p]"
proof -
  have "requests_of fx = []"
    if "handleSubmit_try num cb r p0 = Inr (p1, fx)" for p0 p1 fx
    using that
    by (auto simp add: handleSubmit_try_def requests_simps
        split: response.splits response_body.splits sum.splits if_splits)
  then show ?thesis
    by (auto simp add: handleSubmit_def Let_def requests_simps split: sum.splits)
qed

lemma translateToUrdu_requests:
  "requests_of (snd (translateToUrdu text r)) = [translate_request text]"
  by (auto simp add: translateToUrdu_def requests_simps
      split: response.splits response_body.splits sum.splits)

lemma translate_element_requests:
  "length (requests_of (snd (translate_element num ph r el))) \<le> 1"
proof (cases el)
  case None
  then show ?thesis by (simp add: translate_element_def requests_simps)
next
  case (Some original)
  then show ?thesis using translateToUrdu_requests [of original r]
    by (cases "translateToUrdu original r")
       (simp add: translate_element_def requests_simps)
qed

lemma translate_click_requests:
  "length (requests_of (snd (translate_click num r1 r2 p))) \<le> 2"
proof -
  obtain b1 fx1 where a: "translate_element num (ascii ''[no bug report]'') r1 (bugReportPre p) = (b1, fx1)"
    by (cases "translate_element num (ascii ''[no bug report]'') r1 (bugReportPre p)") auto
  obtain b2 fx2 where b: "translate_element num (ascii ''[no corrected code]'') r2 (correctedCodePre p) = (b2, fx2)"
    by (cases "translate_element num (ascii ''[no corrected code]'') r2 (correctedCodePre p)") auto
  from a translate_element_requests [of num "ascii ''[no bug report]''" r1 "bugReportPre p"]
  have 1: "length (requests_of fx1) \<le> 1" by simp
  from b translate_element_requests [of num "ascii ''[no corrected code]''" r2 "correctedCodePre p"]
  have 2: "length (requests_of fx2) \<le> 1" by simp
  show ?thesis using a b 1 2
    by (simp add: translate_click_def requests_simps split: option.splits)
qed

lemma reported_page_eq:
  "reported_page =
     \<lparr>files = [main_js],
      currentReport = Val (JObj [(ascii ''scores'', JObj [(ascii ''overall'', JNum 82)]),
                  (ascii ''bug_report'', JStr (ascii ''unused variable'')),
                  (ascii ''corrected_code'', JStr (ascii ''let y = 1;''))]),
      bugReportPre = Some (ascii ''unused variable''),
      correctedCodePre = Some (ascii ''let y = 1;''),
      translateBtn = Some \<lparr>disabled = False, textContent = TranslateToUrdu\<rparr>\<rparr>"
  by (simp add: reported_page_def upload_submit_def fresh_page_def main_js_def maxSize_def
      upload_try_def show_report_def report_payload_def or_undefined_def or_else_def
      setText_def to_string_def ascii_def Let_def)

text \<open>
  C8, as the claim states it, fails on the static page: after a report with a bug report and
  a corrected code has been shown, one click on the translate button sends two requests,
  one for each text.
\<close>

theorem translate_click_two_requests:
  "requests_of (snd (translate_click (\<lambda>q. []) Network_error Network_error reported_page))
     = [translate_request (ascii ''unused variable''), translate_request (ascii ''let y = 1;'')]"
  by (simp add: reported_page_eq translate_click_def translate_element_def translateToUrdu_def
      requests_simps ascii_def)

text \<open>
  C8, amended. Every user action sends at most one request, except a click on the translate
  button of the static page, which sends at most two (one for each text it translates).
  This holds whatever the answers are: the continuation of an analysis sends nothing after
  any answer, and \<open>translateToUrdu\<close> sends its one request and gives the text back when
  it fails; no handler sends a request again.
\<close>

theorem requests_per_action:
  "length (requests_of (snd (analyze k r s))) \<le> 1
   \<and> requests_of (snd (settle t r s)) = []
   \<and> requests_of (snd (handleFileUpload fs s)) = []
   \<and> requests_of (handleLogout r) = [logout_request]
   \<and> requests_of (handleLogoutClick r) = [logout_request]
   \<and> requests_of (snd (handleSubmit num cb r p)) = [handleSubmit_request p]
   \<and> length (requests_of (snd (upload_submit num r q))) \<le> 1
   \<and> requests_of (snd (reset_click q)) = []
   \<and> requests_of (logout r) = [static_logout_request]
   \<and> requests_of (snd (translateToUrdu text r)) = [translate_request text]
   \<and> length (requests_of (snd (translate_click num r1 r2 q))) \<le> 2"
proof -
  have "length (requests_of (snd (upload_submit num r q))) \<le> 1"
    by (simp add: upload_submit_requests split: list.splits)
  moreover have "requests_of (snd (handleFileUpload fs s)) = []"
    by (simp add: handleFileUpload_def requests_simps split: list.splits)
  moreover have "requests_of (handleLogoutClick r) = [logout_request]"
    by (simp add: handleLogoutClick_def requests_simps split: response.splits)
  moreover have "requests_of (handleLogout r) = [logout_request]"
    "requests_of (snd (reset_click q)) = []" "requests_of (logout r) = [static_logout_request]"
    by (simp_all add: handleLogout_def reset_click_def logout_def requests_simps)
  ultimately show ?thesis
    using analyze_requests settle_no_request handleSubmit_requests translate_click_requests
      translateToUrdu_requests
    by simp
qed

end
